theory Spec2Isabelle
  imports Main "HOL-Library.Sublist"
begin

section \<open>Graph model (backend/analyzer/graph.py)\<close>

text \<open>
  Metadata values are the Python values the extractors store in the
  \<open>metadata\<close> dictionaries: strings, booleans, lists of strings and \<open>None\<close>.
  A dictionary is an association list in insertion order.
\<close>

datatype mval = MStr string | MBool bool | MList "string list" | MNone

type_synonym metadata = "(string \<times> mval) list"

record node =
  node_id :: string
  label :: string
  node_type :: string
  file_path :: string
  line_number :: int
  metadata :: metadata

record edge =
  source :: string
  target :: string
  edge_type :: string
  edge_metadata :: metadata

text \<open>
  \<open>Graph.nodes\<close> is a dict from id to node (insertion ordered), \<open>Graph.edges\<close> a list.
\<close>

record graph =
  nodes :: "(string \<times> node) list"
  edges :: "edge list"

definition Graph :: graph where
  "Graph = \<lparr>nodes = [], edges = []\<rparr>"

definition node_ids :: "graph \<Rightarrow> string list" where
  "node_ids g = map fst (nodes g)"

definition has_node :: "graph \<Rightarrow> string \<Rightarrow> bool" where
  "has_node g k = (k \<in> set (node_ids g))"

definition lookup_node :: "graph \<Rightarrow> string \<Rightarrow> node option" where
  "lookup_node g k = map_of (nodes g) k"

definition Node :: "string \<Rightarrow> string \<Rightarrow> string \<Rightarrow> string \<Rightarrow> int \<Rightarrow> metadata \<Rightarrow> node" where
  "Node i l t fp ln md =
     \<lparr>node_id = i, label = l, node_type = t, file_path = fp, line_number = ln, metadata = md\<rparr>"

definition Edge :: "string \<Rightarrow> string \<Rightarrow> string \<Rightarrow> metadata \<Rightarrow> edge" where
  "Edge s t ty md = \<lparr>source = s, target = t, edge_type = ty, edge_metadata = md\<rparr>"

definition add_node :: "node \<Rightarrow> graph \<Rightarrow> graph" where
  "add_node n g =
     (if \<not> has_node g (node_id n) then g\<lparr>nodes := nodes g @ [(node_id n, n)]\<rparr> else g)"

definition add_edge :: "edge \<Rightarrow> graph \<Rightarrow> graph" where
  "add_edge e g =
     (if has_node g (source e) \<and> has_node g (target e) then g\<lparr>edges := edges g @ [e]\<rparr> else g)"

definition add_edge_deferred :: "edge \<Rightarrow> graph \<Rightarrow> graph" where
  "add_edge_deferred e g = g\<lparr>edges := edges g @ [e]\<rparr>"

definition merge :: "graph \<Rightarrow> graph \<Rightarrow> graph" where
  "merge other g =
     (let g1 = fold (\<lambda>(k, n). add_node n) (nodes other) g
      in g1\<lparr>edges := edges g1 @ edges other\<rparr>)"

definition edge_key :: "edge \<Rightarrow> string \<times> string \<times> string" where
  "edge_key e = (source e, target e, edge_type e)"

text \<open>
  The loop of \<open>resolve_edges\<close>: \<open>valid\<close> and \<open>seen\<close> are the accumulators,
  \<open>ids\<close> is \<open>set(self.nodes.keys())\<close>.
\<close>

fun resolve_loop ::
  "string list \<Rightarrow> edge list \<Rightarrow> edge list \<Rightarrow> (string \<times> string \<times> string) list \<Rightarrow> edge list" where
  "resolve_loop ids [] valid seen = valid"
| "resolve_loop ids (e # es) valid seen =
     (if source e \<in> set ids \<and> target e \<in> set ids \<and> edge_key e \<notin> set seen
      then resolve_loop ids es (valid @ [e]) (edge_key e # seen)
      else resolve_loop ids es valid seen)"

definition resolve_edges :: "graph \<Rightarrow> graph" where
  "resolve_edges g = g\<lparr>edges := resolve_loop (node_ids g) (edges g) [] []\<rparr>"

subsection \<open>Serialization (\<open>Graph.to_dict\<close>)\<close>

record node_dict =
  nd_id :: string
  nd_label :: string
  nd_type :: string
  nd_file_path :: string
  nd_line_number :: int
  nd_metadata :: metadata
  nd_degree :: int

record graph_dict =
  gd_nodes :: "node_dict list"
  gd_edges :: "edge list"
  gd_node_colors :: "(string \<times> string) list"
  gd_edge_colors :: "(string \<times> string) list"
  gd_node_type_counts :: "(string \<times> int) list"
  gd_edge_type_counts :: "(string \<times> int) list"
  gd_total_nodes :: int
  gd_total_edges :: int
  gd_repo_name :: string

definition NODE_COLORS :: "(string \<times> string) list" where
  "NODE_COLORS =
    [(''endpoint'', ''#00bcd4''), (''file'', ''#66bb6a''), (''class'', ''#ffa726''),
     (''function'', ''#42a5f5''), (''router'', ''#ef5350''), (''model'', ''#ec407a''),
     (''service'', ''#26a69a''), (''utility'', ''#78909c''), (''middleware'', ''#ab47bc''),
     (''task'', ''#ff7043''), (''config'', ''#8d6e63''), (''test'', ''#9ccc65''),
     (''component'', ''#29b6f6''), (''module'', ''#d4e157'')]"

definition EDGE_COLORS :: "(string \<times> string) list" where
  "EDGE_COLORS =
    [(''imports'', ''#4fc3f7''), (''calls'', ''#81c784''), (''inherits'', ''#ffb74d''),
     (''endpoint_handler'', ''#e57373''), (''db_read'', ''#4dd0e1''), (''db_write'', ''#f06292''),
     (''api_call'', ''#aed581''), (''uses'', ''#90a4ae''), (''middleware_chain'', ''#ce93d8'')]"

text \<open>\<open>d.get(k, 0)\<close> on a dict held as a map.\<close>

definition get0 :: "(string \<rightharpoonup> int) \<Rightarrow> string \<Rightarrow> int" where
  "get0 m k = (case m k of None \<Rightarrow> 0 | Some d \<Rightarrow> d)"

definition bump :: "string \<Rightarrow> (string \<rightharpoonup> int) \<Rightarrow> (string \<rightharpoonup> int)" where
  "bump k m = m(k \<mapsto> get0 m k + 1)"

text \<open>
  \<open>node_degree\<close> starts at 0 for every node id; each edge then bumps the entry of its
  source and after that the entry of its target.
\<close>

definition node_degree :: "graph \<Rightarrow> (string \<rightharpoonup> int)" where
  "node_degree g =
     fold (\<lambda>e m. bump (target e) (bump (source e) m)) (edges g)
          (map_of (map (\<lambda>(k, n). (k, 0)) (nodes g)))"

definition node_to_dict :: "node \<Rightarrow> int \<Rightarrow> node_dict" where
  "node_to_dict n d =
     \<lparr>nd_id = node_id n, nd_label = label n, nd_type = node_type n,
      nd_file_path = file_path n, nd_line_number = line_number n,
      nd_metadata = metadata n, nd_degree = d\<rparr>"

text \<open>Counting into an insertion-ordered dict: \<open>c[k] = c.get(k, 0) + 1\<close>.\<close>

fun count_into :: "(string \<times> int) list \<Rightarrow> string \<Rightarrow> (string \<times> int) list" where
  "count_into [] k = [(k, 1)]"
| "count_into ((k', c) # rest) k =
     (if k' = k then (k', c + 1) # rest else (k', c) # count_into rest k)"

definition to_dict :: "graph \<Rightarrow> graph_dict" where
  "to_dict g =
     (let deg = node_degree g in
      \<lparr>gd_nodes = map (\<lambda>(k, n). node_to_dict n (get0 deg k)) (nodes g),
       gd_edges = edges g,
       gd_node_colors = NODE_COLORS,
       gd_edge_colors = EDGE_COLORS,
       gd_node_type_counts = fold (\<lambda>(k, n) c. count_into c (node_type n)) (nodes g) [],
       gd_edge_type_counts = fold (\<lambda>e c. count_into c (edge_type e)) (edges g) [],
       gd_total_nodes = int (length (nodes g)),
       gd_total_edges = int (length (edges g)),
       gd_repo_name = []\<rparr>)"

text \<open>
  The class invariant of \<open>Graph\<close>: the keys of the dict are distinct (it is a dict) and
  every node is stored under its own id (\<open>add_node\<close> is the only writer).
\<close>

definition graph_inv :: "graph \<Rightarrow> bool" where
  "graph_inv g = (distinct (node_ids g) \<and> list_all (\<lambda>(k, n). k = node_id n) (nodes g))"

section \<open>Strings and paths\<close>

text \<open>
  Python's \<open>str\<close> methods used by the analyzers, on \<open>string\<close>. The case mappings
  and \<open>isupper\<close> are the ASCII ones (other characters are left as they are).
\<close>

definition startswith :: "string \<Rightarrow> string \<Rightarrow> bool" where
  "startswith s p = prefix p s"

definition endswith :: "string \<Rightarrow> string \<Rightarrow> bool" where
  "endswith s p = suffix p s"

text \<open>\<open>sub in s\<close> for strings.\<close>

definition contains :: "string \<Rightarrow> string \<Rightarrow> bool" where
  "contains s sub = sublist sub s"

text \<open>
  \<open>s.replace(old, new)\<close>: non-overlapping occurrences, left to right. The analyzers
  never call it with an empty \<open>old\<close>; the model then returns \<open>s\<close>.
\<close>

function str_replace :: "string \<Rightarrow> string \<Rightarrow> string \<Rightarrow> string" where
  "str_replace old new [] = []"
| "str_replace old new (c # cs) =
     (if old \<noteq> [] \<and> prefix old (c # cs)
      then new @ str_replace old new (drop (length old) (c # cs))
      else c # str_replace old new cs)"
  by pat_completeness auto
termination
  by (relation "measure (\<lambda>(old, new, s). length s)") (auto simp: neq_Nil_conv)

text \<open>\<open>s.split(c)\<close> for a one-character separator, and \<open>sep.join(parts)\<close>.\<close>

fun split_on :: "char \<Rightarrow> string \<Rightarrow> string list" where
  "split_on c [] = [[]]"
| "split_on c (x # xs) =
     (if x = c then [] # split_on c xs
      else (case split_on c xs of p # ps \<Rightarrow> (x # p) # ps | [] \<Rightarrow> [[x]]))"

fun join :: "string \<Rightarrow> string list \<Rightarrow> string" where
  "join sep [] = []"
| "join sep [p] = p"
| "join sep (p # q # ps) = p @ sep @ join sep (q # ps)"

definition upper_letters :: string where
  "upper_letters = ''ABCDEFGHIJKLMNOPQRSTUVWXYZ''"

definition lower_letters :: string where
  "lower_letters = ''abcdefghijklmnopqrstuvwxyz''"

definition lower_char :: "char \<Rightarrow> char" where
  "lower_char c = (case map_of (zip upper_letters lower_letters) c of Some d \<Rightarrow> d | None \<Rightarrow> c)"

definition upper_char :: "char \<Rightarrow> char" where
  "upper_char c = (case map_of (zip lower_letters upper_letters) c of Some d \<Rightarrow> d | None \<Rightarrow> c)"

definition lower :: "string \<Rightarrow> string" where
  "lower s = map lower_char s"

definition upper :: "string \<Rightarrow> string" where
  "upper s = map upper_char s"

definition isupper_char :: "char \<Rightarrow> bool" where
  "isupper_char c = (c \<in> set upper_letters)"

definition backslash :: string where
  "backslash = [CHR 0x5C]"

definition newline :: char where
  "newline = CHR 0x0A"

text \<open>
  \<open>pathlib.Path\<close> in its POSIX flavour, as far as the analyzers use it: a path is a
  root (empty, one slash or two slashes) and its parts; parsing drops empty and
  single-dot components and keeps double-dot ones; nothing touches the file system.
\<close>

record ppath =
  p_root :: string
  p_parts :: "string list"

definition path_root :: "string \<Rightarrow> string" where
  "path_root s =
     (if startswith s ''//'' \<and> \<not> startswith s ''///'' then ''//''
      else if startswith s ''/'' then ''/'' else [])"

definition Path :: "string \<Rightarrow> ppath" where
  "Path s = \<lparr>p_root = path_root s,
             p_parts = filter (\<lambda>p. p \<noteq> [] \<and> p \<noteq> ''.'') (split_on CHR ''/'' s)\<rparr>"

definition path_str :: "ppath \<Rightarrow> string" where
  "path_str p =
     (if p_root p = [] \<and> p_parts p = [] then ''.'' else p_root p @ join ''/'' (p_parts p))"

definition path_parent :: "ppath \<Rightarrow> ppath" where
  "path_parent p = (if p_parts p = [] then p else p\<lparr>p_parts := butlast (p_parts p)\<rparr>)"

text \<open>\<open>p / s\<close>: an absolute right operand replaces the left one.\<close>

definition path_div :: "ppath \<Rightarrow> string \<Rightarrow> ppath" where
  "path_div p s =
     (let q = Path s in if p_root q \<noteq> [] then q else p\<lparr>p_parts := p_parts p @ p_parts q\<rparr>)"

definition path_name :: "ppath \<Rightarrow> string" where
  "path_name p = (if p_parts p = [] then [] else last (p_parts p))"

text \<open>
  \<open>Path.stem\<close>: the final component without its last suffix; a leading or a trailing
  dot starts no suffix.
\<close>

definition path_stem :: "ppath \<Rightarrow> string" where
  "path_stem p =
     (let nm = path_name p;
          after = takeWhile (\<lambda>c. c \<noteq> CHR ''.'') (rev nm);
          i = length nm - length after - 1
      in if CHR ''.'' \<in> set nm \<and> 0 < i \<and> after \<noteq> [] then take i nm else nm)"

text \<open>\<open>Path.parts\<close>: the root, when there is one, is the first element of the tuple.\<close>

definition path_parts :: "ppath \<Rightarrow> string list" where
  "path_parts p = (if p_root p = [] then [] else [p_root p]) @ p_parts p"

section \<open>File descriptors and the path classifier (generic\_analyzer.py)\<close>

record file_info =
  full_path :: string
  rel_path :: string
  ext :: string
  name :: string

definition file_id_of :: "file_info \<Rightarrow> string" where
  "file_id_of f = ''file:'' @ rel_path f"

definition CONFIG_NAMES :: "string list" where
  "CONFIG_NAMES =
    [''config'', ''settings'', ''configuration'', ''.env'', ''env'',
     ''webpack'', ''babel'', ''eslint'', ''prettier'', ''tsconfig'',
     ''jest'', ''karma'', ''rollup'', ''vite'', ''next.config'',
     ''pyproject'', ''setup.cfg'', ''tox'', ''mypy'', ''flake8'',
     ''docker-compose'', ''dockerfile'', ''makefile'', ''cmake'',
     ''package.json'', ''cargo.toml'', ''go.mod'', ''gemfile'',
     ''pipfile'', ''poetry'', ''requirements'']"

definition CONFIG_EXTENSIONS :: "string list" where
  "CONFIG_EXTENSIONS =
    [''.json'', ''.yaml'', ''.yml'', ''.toml'', ''.ini'', ''.cfg'',
     ''.env'', ''.conf'', ''.xml'', ''.properties'']"

definition TEST_PATTERNS :: "string list" where
  "TEST_PATTERNS = [''test'', ''tests'', ''spec'', ''specs'', ''__tests__'', ''test_'', ''_test'']"

definition ROUTE_DIR_PATTERNS :: "string list" where
  "ROUTE_DIR_PATTERNS = [''routes'', ''api'', ''endpoints'', ''views'', ''controllers'']"

definition MODEL_DIR_PATTERNS :: "string list" where
  "MODEL_DIR_PATTERNS = [''models'', ''entities'', ''schemas'']"

definition SERVICE_DIR_PATTERNS :: "string list" where
  "SERVICE_DIR_PATTERNS = [''services'', ''providers'', ''managers'']"

definition UTIL_DIR_PATTERNS :: "string list" where
  "UTIL_DIR_PATTERNS = [''utils'', ''utilities'', ''helpers'', ''lib'', ''common'', ''shared'']"

definition MIDDLEWARE_DIR_PATTERNS :: "string list" where
  "MIDDLEWARE_DIR_PATTERNS = [''middleware'', ''middlewares'']"

text \<open>\<open>any(p.lower() in pats for p in parts)\<close>.\<close>

definition any_in :: "string list \<Rightarrow> string list \<Rightarrow> bool" where
  "any_in parts pats = list_ex (\<lambda>p. lower p \<in> set pats) parts"

definition classify_by_path :: "string \<Rightarrow> string \<Rightarrow> string \<Rightarrow> string" where
  "classify_by_path rel nm ex =
     (let parts = butlast (path_parts (Path rel));
          stem = lower (path_stem (Path nm))
      in if any_in parts TEST_PATTERNS \<or> contains stem ''test'' \<or> contains stem ''spec''
         then ''test''
         else if stem \<in> set CONFIG_NAMES \<or> ex \<in> set CONFIG_EXTENSIONS then ''config''
         else if any_in parts ROUTE_DIR_PATTERNS then ''endpoint''
         else if any_in parts MODEL_DIR_PATTERNS then ''model''
         else if any_in parts SERVICE_DIR_PATTERNS then ''service''
         else if any_in parts UTIL_DIR_PATTERNS then ''utility''
         else if any_in parts MIDDLEWARE_DIR_PATTERNS then ''middleware''
         else ''file'')"

section \<open>What the analyzers read\<close>

text \<open>
  The analyzers see a file through \<open>open(...).read()\<close>, \<open>ast.parse\<close> and the compiled
  regular expressions. None of the three is code of the repository, so they are
  parameters: \<open>read_text\<close> gives the text of a file (\<open>None\<close> when \<open>open\<close> raises
  \<open>OSError\<close>), \<open>ast_parse\<close> the syntax tree (\<open>None\<close> for \<open>SyntaxError\<close>), and the
  two \<open>finditer\<close> fields what the expressions match in a text, in match order.
\<close>

text \<open>
  The syntax tree as the extractor reads it: the expressions of decorators, bases and
  callees, and the nodes that \<open>ast.walk\<close> and \<open>ast.iter_child_nodes\<close> yield, in their
  order.
\<close>

datatype expr = Name string | Attribute expr string | Call expr | OtherExpr

record funcdef =
  fn_name :: string
  fn_decorator_list :: "expr list"
  fn_lineno :: int
  fn_is_async :: bool

text \<open>\<open>cls_walk_funcs\<close>: the function definitions among \<open>ast.walk(node)\<close> of the class.\<close>

record classdef =
  cls_name :: string
  cls_bases :: "expr list"
  cls_decorator_list :: "expr list"
  cls_lineno :: int
  cls_walk_funcs :: "funcdef list"

text \<open>\<open>Import\<close> carries the alias names, \<open>ImportFrom\<close> its \<open>module\<close> (which may be \<open>None\<close>).\<close>

datatype import_stmt = Import "string list" | ImportFrom "string option"

text \<open>
  \<open>walk_classes\<close>, \<open>walk_imports\<close>, \<open>walk_calls\<close>: the class definitions, the import
  statements and the callees (\<open>node.func\<close>) of the calls among \<open>ast.walk(tree)\<close>;
  \<open>child_funcs\<close>: the function definitions among \<open>ast.iter_child_nodes(tree)\<close>.
\<close>

record py_module =
  walk_classes :: "classdef list"
  child_funcs :: "funcdef list"
  walk_imports :: "import_stmt list"
  walk_calls :: "expr list"

record generic_matches =
  re_include :: "string list"
  re_using :: "string list"
  re_use :: "string list"
  re_go_import :: "string list"

text \<open>
  The matches of the script-language expressions: the groups of each match and, where
  the extractor asks for it, \<open>m.start()\<close>; for the expressions used with \<open>search\<close>,
  whether there is a match.
\<close>

record js_matches =
  express_routes :: "(string \<times> string \<times> nat) list"
  class_decls :: "(string \<times> string option \<times> nat) list"
  function_exports :: "(string \<times> nat) list"
  const_arrows :: "(string \<times> nat) list"
  mongoose_models :: "(string \<times> nat) list"
  sequelize_defines :: "(string \<times> nat) list"
  import_froms :: "string list"
  requires :: "string list"
  dynamic_imports :: "string list"
  fetch_call :: bool
  axios_method :: bool
  db_read :: bool
  db_write :: bool
  router_init :: bool

record world =
  read_text :: "string \<Rightarrow> string option"
  ast_parse :: "string \<Rightarrow> py_module option"
  js_finditer :: "string \<Rightarrow> js_matches"
  generic_finditer :: "string \<Rightarrow> generic_matches"

text \<open>
  Iterating over a Python \<open>set\<close> of strings built by \<open>add\<close>: each element once. Python
  fixes no order; the model takes the order of first insertion.
\<close>

definition set_iter :: "string list \<Rightarrow> string list" where
  "set_iter xs = rev (remdups (rev xs))"

section \<open>Generic extractor (generic\_analyzer.py)\<close>

definition DEDICATED_EXTENSIONS :: "string list" where
  "DEDICATED_EXTENSIONS = [''.py'', ''.pyi'', ''.js'', ''.jsx'', ''.ts'', ''.tsx'', ''.mjs'', ''.cjs'']"

definition import_edge :: "string \<Rightarrow> string \<Rightarrow> edge" where
  "import_edge file_id t = Edge file_id (''module:'' @ t) ''imports'' []"

definition extract_generic_imports :: "world \<Rightarrow> file_info \<Rightarrow> string \<Rightarrow> graph \<Rightarrow> graph" where
  "extract_generic_imports w f file_id g =
     (case read_text w (full_path f) of
        None \<Rightarrow> g
      | Some text \<Rightarrow>
          (let m = generic_finditer w (take 50000 text);
               targets = set_iter (re_include m @ re_using m
                                   @ map (str_replace ''::'' ''/'') (re_use m) @ re_go_import m)
           in fold (\<lambda>t. add_edge_deferred (import_edge file_id t)) targets g))"

definition generic_analyze_file :: "world \<Rightarrow> file_info \<Rightarrow> graph \<Rightarrow> graph" where
  "generic_analyze_file w f g =
     (let file_id = ''file:'' @ rel_path f;
          nt = classify_by_path (rel_path f) (name f) (ext f);
          g1 = add_node (Node file_id (name f) nt (rel_path f) 0
                           [(''extension'', MStr (ext f))]) g
      in if ext f \<notin> set DEDICATED_EXTENSIONS
         then extract_generic_imports w f file_id g1 else g1)"

section \<open>AST extractor (python\_analyzer.py)\<close>

definition ENDPOINT_DECORATORS :: "string list" where
  "ENDPOINT_DECORATORS =
    [''route'', ''get'', ''post'', ''put'', ''patch'', ''delete'', ''head'', ''options'',
     ''api_view'', ''action'', ''websocket'']"

definition ROUTER_PATTERNS :: "string list" where
  "ROUTER_PATTERNS =
    [''APIRouter'', ''Blueprint'', ''Router'', ''Namespace'', ''DefaultRouter'', ''SimpleRouter'']"

definition MODEL_BASES :: "string list" where
  "MODEL_BASES =
    [''Model'', ''models.Model'', ''db.Model'', ''Base'', ''Document'', ''EmbeddedDocument'',
     ''ModelBase'']"

definition TASK_DECORATORS :: "string list" where
  "TASK_DECORATORS = [''task'', ''shared_task'', ''periodic_task'', ''job'', ''background_task'']"

definition DB_READ_METHODS :: "string list" where
  "DB_READ_METHODS =
    [''filter'', ''get'', ''all'', ''first'', ''last'', ''count'',
     ''exists'', ''aggregate'', ''values'', ''values_list'',
     ''select_related'', ''prefetch_related'', ''annotate'',
     ''order_by'', ''distinct'', ''exclude'',
     ''find'', ''find_one'', ''find_many'',
     ''query'', ''execute'', ''fetchone'', ''fetchall'', ''fetchmany'',
     ''select'', ''where'']"

definition DB_WRITE_METHODS :: "string list" where
  "DB_WRITE_METHODS =
    [''save'', ''create'', ''update'', ''delete'', ''bulk_create'',
     ''bulk_update'', ''insert'', ''insert_one'', ''insert_many'',
     ''update_one'', ''update_many'', ''delete_one'', ''delete_many'',
     ''commit'', ''add'', ''merge'', ''flush'',
     ''put_item'', ''delete_item'']"

definition API_CALL_NAMES :: "string list" where
  "API_CALL_NAMES =
    [''get'', ''post'', ''put'', ''patch'', ''delete'', ''head'', ''options'',
     ''request'', ''fetch'', ''urlopen'']"

definition API_CALL_MODULES :: "string list" where
  "API_CALL_MODULES = [''requests'', ''httpx'', ''aiohttp'', ''urllib'']"

fun decorator_name :: "expr \<Rightarrow> string list" where
  "decorator_name (Name i) = [i]"
| "decorator_name (Attribute v a) = [a]"
| "decorator_name (Call (Name i)) = [i]"
| "decorator_name (Call (Attribute v a)) = [a]"
| "decorator_name _ = []"

definition get_decorator_names :: "expr list \<Rightarrow> string list" where
  "get_decorator_names decs = concat (map decorator_name decs)"

text \<open>The \<open>parts\<close> of \<open>_attr_chain\<close>, in the order the loop appends them.\<close>

fun attr_chain_parts :: "expr \<Rightarrow> string list" where
  "attr_chain_parts (Attribute v a) = a # attr_chain_parts v"
| "attr_chain_parts (Name i) = [i]"
| "attr_chain_parts _ = []"

definition attr_chain :: "expr \<Rightarrow> string" where
  "attr_chain e = join ''.'' (rev (attr_chain_parts e))"

fun base_name :: "expr \<Rightarrow> string list" where
  "base_name (Name i) = [i]"
| "base_name (Attribute v a) = [attr_chain (Attribute v a)]"
| "base_name _ = []"

definition get_base_names :: "expr list \<Rightarrow> string list" where
  "get_base_names bs = concat (map base_name bs)"

definition any_of :: "string list \<Rightarrow> string list \<Rightarrow> bool" where
  "any_of xs vocab = list_ex (\<lambda>x. x \<in> set vocab) xs"

definition HTTP_VERBS :: "string list" where
  "HTTP_VERBS = [''get'', ''post'', ''put'', ''patch'', ''delete'', ''head'', ''options'']"

fun guess_http_method :: "string list \<Rightarrow> string" where
  "guess_http_method [] = ''GET''"
| "guess_http_method (d # ds) =
     (if lower d \<in> set HTTP_VERBS then upper (lower d) else guess_http_method ds)"

definition py_class_type :: "string \<Rightarrow> string list \<Rightarrow> string" where
  "py_class_type nm bases =
     (if any_of bases MODEL_BASES then ''model''
      else if any_of (nm # bases) ROUTER_PATTERNS then ''router''
      else if contains (lower nm) ''service'' then ''service''
      else if contains (lower nm) ''middleware'' then ''middleware''
      else if contains (lower nm) ''util'' \<or> contains (lower nm) ''helper'' then ''utility''
      else ''class'')"

definition py_extract_base :: "string \<Rightarrow> string \<Rightarrow> graph \<Rightarrow> graph" where
  "py_extract_base class_id base g =
     (if base \<notin> set [''object'', ''type'', ''ABC'', ''Exception'']
      then (let inherit_id = ''class_ref:'' @ base;
                g1 = add_node (Node inherit_id base ''class'' [] 0
                                 [(''external_ref'', MBool True)]) g
            in add_edge_deferred (Edge class_id inherit_id ''inherits'' []) g1)
      else g)"

definition py_extract_method :: "file_info \<Rightarrow> string \<Rightarrow> string \<Rightarrow> funcdef \<Rightarrow> graph \<Rightarrow> graph" where
  "py_extract_method f cname class_id item g =
     (let method_decorators = get_decorator_names (fn_decorator_list item)
      in if any_of method_decorators ENDPOINT_DECORATORS
         then (let ep_id = ''endpoint:'' @ rel_path f @ '':'' @ cname @ ''.'' @ fn_name item;
                   g1 = add_node (Node ep_id (cname @ ''.'' @ fn_name item) ''endpoint''
                                    (rel_path f) (fn_lineno item)
                                    [(''method'', MStr (guess_http_method method_decorators))]) g
               in add_edge (Edge class_id ep_id ''endpoint_handler'' []) g1)
         else g)"

definition py_extract_class :: "file_info \<Rightarrow> string \<Rightarrow> classdef \<Rightarrow> graph \<Rightarrow> graph" where
  "py_extract_class f file_id c g =
     (let class_id = ''class:'' @ rel_path f @ '':'' @ cls_name c;
          decorators = get_decorator_names (cls_decorator_list c);
          bases = get_base_names (cls_bases c);
          g1 = add_node (Node class_id (cls_name c) (py_class_type (cls_name c) bases)
                           (rel_path f) (cls_lineno c)
                           [(''bases'', MList bases), (''decorators'', MList decorators)]) g;
          g2 = add_edge (Edge file_id class_id ''uses'' []) g1;
          g3 = fold (py_extract_base class_id) bases g2
      in fold (py_extract_method f (cls_name c) class_id) (cls_walk_funcs c) g3)"

definition py_extract_classes :: "py_module \<Rightarrow> file_info \<Rightarrow> string \<Rightarrow> graph \<Rightarrow> graph" where
  "py_extract_classes tree f file_id g = fold (py_extract_class f file_id) (walk_classes tree) g"

definition py_function_type :: "string \<Rightarrow> string list \<Rightarrow> string" where
  "py_function_type nm decorators =
     (if any_of decorators ENDPOINT_DECORATORS then ''endpoint''
      else if any_of decorators TASK_DECORATORS then ''task''
      else if contains (lower nm) ''middleware'' then ''middleware''
      else ''function'')"

definition py_extract_function :: "file_info \<Rightarrow> string \<Rightarrow> funcdef \<Rightarrow> graph \<Rightarrow> graph" where
  "py_extract_function f file_id fd g =
     (let decorators = get_decorator_names (fn_decorator_list fd);
          func_id = ''func:'' @ rel_path f @ '':'' @ fn_name fd;
          nt = py_function_type (fn_name fd) decorators;
          g1 = add_node (Node func_id (fn_name fd) nt (rel_path f) (fn_lineno fd)
                           [(''decorators'', MList decorators),
                            (''is_async'', MBool (fn_is_async fd))]) g;
          g2 = add_edge (Edge file_id func_id ''uses'' []) g1
      in if nt = ''endpoint''
         then add_edge (Edge file_id func_id ''endpoint_handler'' []) g2 else g2)"

definition py_extract_functions :: "py_module \<Rightarrow> file_info \<Rightarrow> string \<Rightarrow> graph \<Rightarrow> graph" where
  "py_extract_functions tree f file_id g = fold (py_extract_function f file_id) (child_funcs tree) g"

fun py_extract_import :: "string \<Rightarrow> import_stmt \<Rightarrow> graph \<Rightarrow> graph" where
  "py_extract_import file_id (Import names) g =
     fold (\<lambda>alias. add_edge_deferred (import_edge file_id alias)) names g"
| "py_extract_import file_id (ImportFrom None) g = g"
| "py_extract_import file_id (ImportFrom (Some m)) g =
     (if m \<noteq> [] then add_edge_deferred (import_edge file_id m) g else g)"

definition py_extract_imports :: "py_module \<Rightarrow> string \<Rightarrow> graph \<Rightarrow> graph" where
  "py_extract_imports tree file_id g = fold (py_extract_import file_id) (walk_imports tree) g"

definition self_edge :: "string \<Rightarrow> string \<Rightarrow> metadata \<Rightarrow> edge" where
  "self_edge file_id ty md = Edge file_id file_id ty md"

fun py_extract_call :: "string \<Rightarrow> expr \<Rightarrow> graph \<Rightarrow> graph" where
  "py_extract_call file_id (Attribute v method) g =
     (let obj_name = (case v of Name i \<Rightarrow> i | _ \<Rightarrow> []);
          g1 = (if method \<in> set DB_READ_METHODS
                then add_edge_deferred (self_edge file_id ''db_read''
                       [(''method'', MStr method), (''object'', MStr obj_name)]) g
                else if method \<in> set DB_WRITE_METHODS
                then add_edge_deferred (self_edge file_id ''db_write''
                       [(''method'', MStr method), (''object'', MStr obj_name)]) g
                else g)
      in if obj_name \<in> set API_CALL_MODULES \<and> method \<in> set API_CALL_NAMES
         then add_edge_deferred (self_edge file_id ''api_call''
                [(''method'', MStr method), (''module'', MStr obj_name)]) g1
         else g1)"
| "py_extract_call file_id (Name func_name) g =
     (if func_name \<in> set [''fetch'', ''urlopen'']
      then add_edge_deferred (self_edge file_id ''api_call'' [(''function'', MStr func_name)]) g
      else g)"
| "py_extract_call file_id _ g = g"

definition py_extract_calls :: "py_module \<Rightarrow> string \<Rightarrow> graph \<Rightarrow> graph" where
  "py_extract_calls tree file_id g = fold (py_extract_call file_id) (walk_calls tree) g"

definition py_analyze_file :: "world \<Rightarrow> file_info \<Rightarrow> graph \<Rightarrow> graph" where
  "py_analyze_file w f g =
     (case read_text w (full_path f) of
        None \<Rightarrow> g
      | Some src \<Rightarrow>
          (case ast_parse w src of
             None \<Rightarrow> g
           | Some tree \<Rightarrow>
               (let file_id = ''file:'' @ rel_path f;
                    g1 = py_extract_classes tree f file_id g;
                    g2 = py_extract_functions tree f file_id g1;
                    g3 = py_extract_imports tree file_id g2
                in py_extract_calls tree file_id g3)))"

subsection \<open>Import resolution (\<open>PythonAnalyzer.resolve_imports\<close>)\<close>

definition py_module_name :: "string \<Rightarrow> string" where
  "py_module_name rel =
     (let m0 = str_replace backslash ''.'' (str_replace ''/'' ''.'' rel);
          m1 = (if endswith m0 ''.py'' then take (length m0 - 3) m0 else m0)
      in if endswith m1 ''.__init__'' then take (length m1 - 9) m1 else m1)"

definition setdefault :: "(string \<rightharpoonup> string) \<Rightarrow> string \<Rightarrow> string \<Rightarrow> (string \<rightharpoonup> string)" where
  "setdefault m k v = (case m k of None \<Rightarrow> m(k \<mapsto> v) | Some _ \<Rightarrow> m)"

text \<open>One round of the first loop: the pair is (\<open>module_map\<close>, \<open>suffix_map\<close>).\<close>

definition py_map_file ::
  "file_info \<Rightarrow> (string \<rightharpoonup> string) \<times> (string \<rightharpoonup> string)
     \<Rightarrow> (string \<rightharpoonup> string) \<times> (string \<rightharpoonup> string)" where
  "py_map_file f maps =
     (let md = py_module_name (rel_path f);
          file_id = ''file:'' @ rel_path f;
          parts = split_on CHR ''.'' md
      in ((fst maps)(md \<mapsto> file_id),
          fold (\<lambda>i sm. setdefault sm (join ''.'' (drop (length parts - i) parts)) file_id)
               [1..<length parts + 1] (snd maps)))"

definition py_maps ::
  "file_info list \<Rightarrow> (string \<rightharpoonup> string) \<times> (string \<rightharpoonup> string)" where
  "py_maps python_files = fold py_map_file python_files (Map.empty, Map.empty)"

text \<open>
  The inner loop \<open>for i in range(len(parts), 0, -1)\<close>, counting \<open>i\<close> down; \<open>tgt\<close> is
  the target the edge keeps when no prefix hits.
\<close>

fun py_prefix_loop ::
  "(string \<rightharpoonup> string) \<Rightarrow> (string \<rightharpoonup> string) \<Rightarrow> string list \<Rightarrow> nat \<Rightarrow> string \<Rightarrow> string" where
  "py_prefix_loop mm sm parts 0 tgt = tgt"
| "py_prefix_loop mm sm parts (Suc i) tgt =
     (let pre = join ''.'' (take (Suc i) parts)
      in case mm pre of
           Some fid \<Rightarrow> fid
         | None \<Rightarrow> (case sm pre of
                      Some fid \<Rightarrow> fid
                    | None \<Rightarrow> py_prefix_loop mm sm parts i tgt))"

definition py_resolve_edge ::
  "(string \<rightharpoonup> string) \<Rightarrow> (string \<rightharpoonup> string) \<Rightarrow> edge \<Rightarrow> edge" where
  "py_resolve_edge mm sm e =
     (if edge_type e = ''imports'' \<and> startswith (target e) ''module:''
      then (let mod_name = drop (length ''module:'') (target e)
            in case mm mod_name of
                 Some fid \<Rightarrow> e\<lparr>target := fid\<rparr>
               | None \<Rightarrow>
                   (case sm mod_name of
                      Some fid \<Rightarrow> e\<lparr>target := fid\<rparr>
                    | None \<Rightarrow>
                        (let parts = split_on CHR ''.'' mod_name
                         in e\<lparr>target := py_prefix_loop mm sm parts (length parts) (target e)\<rparr>)))
      else e)"

definition py_resolve_imports :: "file_info list \<Rightarrow> graph \<Rightarrow> graph" where
  "py_resolve_imports python_files g =
     (let maps = py_maps python_files
      in g\<lparr>edges := map (py_resolve_edge (fst maps) (snd maps)) (edges g)\<rparr>)"

section \<open>Pattern extractor (js\_analyzer.py)\<close>

text \<open>\<open>_line_of\<close>: the newlines before the match, plus one.\<close>

definition line_of :: "string \<Rightarrow> nat \<Rightarrow> int" where
  "line_of src match_start = int (length (filter (\<lambda>c. c = newline) (take match_start src))) + 1"

definition route_id :: "file_info \<Rightarrow> string \<Rightarrow> string \<Rightarrow> string" where
  "route_id f verb path = ''endpoint:'' @ rel_path f @ '':'' @ upper verb @ '':'' @ path"

text \<open>The node that \<open>_extract_routes\<close> builds for one match (verb, path, start).\<close>

definition route_node :: "string \<Rightarrow> file_info \<Rightarrow> string \<times> string \<times> nat \<Rightarrow> node" where
  "route_node src f m =
     (case m of (verb, path, start) \<Rightarrow>
        (let method = upper verb;
             lineno = line_of src start;
             ep_id = route_id f verb path;
             lbl = (if path \<noteq> [] then method @ '' '' @ path else method @ '' (middleware)'');
             nt = (if method = ''USE'' then ''middleware'' else ''endpoint'')
         in Node ep_id lbl nt (rel_path f) lineno
              [(''method'', MStr method), (''path'', MStr path)]))"

definition js_extract_route ::
  "string \<Rightarrow> file_info \<Rightarrow> string \<Rightarrow> string \<times> string \<times> nat \<Rightarrow> graph \<Rightarrow> graph" where
  "js_extract_route src f file_id m g =
     add_edge (Edge file_id (node_id (route_node src f m)) ''endpoint_handler'' [])
       (add_node (route_node src f m) g)"

definition js_extract_routes ::
  "string \<Rightarrow> (string \<times> string \<times> nat) list \<Rightarrow> file_info \<Rightarrow> string \<Rightarrow> graph \<Rightarrow> graph" where
  "js_extract_routes src ms f file_id g = fold (js_extract_route src f file_id) ms g"

definition js_class_type :: "string \<Rightarrow> string" where
  "js_class_type nm =
     (if contains (lower nm) ''component'' \<or> contains (lower nm) ''view'' then ''component''
      else if contains (lower nm) ''service'' then ''service''
      else if contains (lower nm) ''middleware'' then ''middleware''
      else if contains (lower nm) ''controller'' \<or> contains (lower nm) ''router'' then ''router''
      else if contains (lower nm) ''model'' then ''model''
      else ''class'')"

text \<open>
  The loops of \<open>_extract_functions_and_classes\<close> carry \<open>seen_names\<close> along with the
  graph. A class match is (name, base, start), with base \<open>None\<close> when the optional group
  did not take part.
\<close>

definition js_extract_class ::
  "string \<Rightarrow> file_info \<Rightarrow> string \<Rightarrow> string \<times> string option \<times> nat
     \<Rightarrow> string list \<times> graph \<Rightarrow> string list \<times> graph" where
  "js_extract_class src f file_id m st =
     (case m of (nm, base, start) \<Rightarrow>
        (let lineno = line_of src start;
             class_id = ''class:'' @ rel_path f @ '':'' @ nm;
             g1 = add_node (Node class_id nm (js_class_type nm) (rel_path f) lineno
                              [(''extends'', (case base of None \<Rightarrow> MNone | Some b \<Rightarrow> MStr b))])
                    (snd st);
             g2 = add_edge (Edge file_id class_id ''uses'' []) g1;
             seen = fst st @ [nm]
         in case base of
              None \<Rightarrow> (seen, g2)
            | Some b \<Rightarrow>
                (if b \<noteq> []
                 then (let ref_id = ''class_ref:'' @ b;
                           g3 = add_node (Node ref_id b ''class'' [] 0
                                            [(''external_ref'', MBool True)]) g2
                       in (seen, add_edge_deferred (Edge class_id ref_id ''inherits'' []) g3))
                 else (seen, g2))))"

text \<open>
  The name of a function match is the group \<open>(\w+)\<close>, never empty, so \<open>name[0]\<close> is
  defined.
\<close>

definition js_function_type :: "string \<Rightarrow> string \<Rightarrow> string" where
  "js_function_type nm ex =
     (if contains (lower nm) ''middleware'' then ''middleware''
      else if contains (lower nm) ''handler'' \<or> contains (lower nm) ''controller'' then ''endpoint''
      else if nm \<noteq> [] \<and> isupper_char (hd nm) \<and> ex \<in> set [''.jsx'', ''.tsx''] then ''component''
      else ''function'')"

definition js_extract_function ::
  "string \<Rightarrow> file_info \<Rightarrow> string \<Rightarrow> string \<times> nat
     \<Rightarrow> string list \<times> graph \<Rightarrow> string list \<times> graph" where
  "js_extract_function src f file_id m st =
     (case m of (nm, start) \<Rightarrow>
        (if nm \<in> set (fst st) then st
         else (let lineno = line_of src start;
                   func_id = ''func:'' @ rel_path f @ '':'' @ nm;
                   g1 = add_node (Node func_id nm (js_function_type nm (ext f)) (rel_path f)
                                    lineno []) (snd st)
               in (fst st @ [nm], add_edge (Edge file_id func_id ''uses'' []) g1))))"

definition js_extract_functions_and_classes ::
  "string \<Rightarrow> js_matches \<Rightarrow> file_info \<Rightarrow> string \<Rightarrow> graph \<Rightarrow> graph" where
  "js_extract_functions_and_classes src m f file_id g =
     (let st1 = fold (js_extract_class src f file_id) (class_decls m) ([], g);
          st2 = fold (js_extract_function src f file_id)
                     (function_exports m @ const_arrows m) st1
      in snd st2)"

definition js_extract_model ::
  "string \<Rightarrow> file_info \<Rightarrow> string \<Rightarrow> string \<times> nat \<Rightarrow> graph \<Rightarrow> graph" where
  "js_extract_model src f file_id m g =
     (case m of (nm, start) \<Rightarrow>
        (let lineno = line_of src start;
             model_id = ''model:'' @ rel_path f @ '':'' @ nm;
             g1 = add_node (Node model_id nm ''model'' (rel_path f) lineno []) g
         in add_edge (Edge file_id model_id ''uses'' []) g1))"

definition js_extract_models ::
  "string \<Rightarrow> js_matches \<Rightarrow> file_info \<Rightarrow> string \<Rightarrow> graph \<Rightarrow> graph" where
  "js_extract_models src m f file_id g =
     fold (js_extract_model src f file_id) (mongoose_models m @ sequelize_defines m) g"

definition js_extract_imports :: "js_matches \<Rightarrow> string \<Rightarrow> graph \<Rightarrow> graph" where
  "js_extract_imports m file_id g =
     fold (\<lambda>t. add_edge_deferred (import_edge file_id t))
          (set_iter (import_froms m @ requires m @ dynamic_imports m)) g"

definition js_extract_api_calls :: "js_matches \<Rightarrow> string \<Rightarrow> graph \<Rightarrow> graph" where
  "js_extract_api_calls m file_id g =
     (if fetch_call m \<or> axios_method m
      then add_edge_deferred (self_edge file_id ''api_call'' []) g else g)"

definition js_extract_db_ops :: "js_matches \<Rightarrow> string \<Rightarrow> graph \<Rightarrow> graph" where
  "js_extract_db_ops m file_id g =
     (let g1 = (if db_read m then add_edge_deferred (self_edge file_id ''db_read'' []) g else g)
      in if db_write m then add_edge_deferred (self_edge file_id ''db_write'' []) g1 else g1)"

definition js_detect_router :: "js_matches \<Rightarrow> file_info \<Rightarrow> string \<Rightarrow> graph \<Rightarrow> graph" where
  "js_detect_router m f file_id g =
     (if router_init m
      then (let router_id = ''router:'' @ rel_path f;
                g1 = add_node (Node router_id (path_stem (Path (rel_path f)) @ '' (router)'')
                                 ''router'' (rel_path f) 0 []) g
            in add_edge (Edge file_id router_id ''uses'' []) g1)
      else g)"

definition js_analyze_file :: "world \<Rightarrow> file_info \<Rightarrow> graph \<Rightarrow> graph" where
  "js_analyze_file w f g =
     (case read_text w (full_path f) of
        None \<Rightarrow> g
      | Some src \<Rightarrow>
          (let m = js_finditer w src;
               file_id = ''file:'' @ rel_path f;
               g1 = js_extract_routes src (express_routes m) f file_id g;
               g2 = js_extract_functions_and_classes src m f file_id g1;
               g3 = js_extract_models src m f file_id g2;
               g4 = js_extract_imports m file_id g3;
               g5 = js_extract_api_calls m file_id g4;
               g6 = js_extract_db_ops m file_id g5
           in js_detect_router m f file_id g6))"

subsection \<open>Import resolution (\<open>JsAnalyzer.resolve_imports\<close>)\<close>

definition JS_STEM_EXTENSIONS :: "string list" where
  "JS_STEM_EXTENSIONS = [''.js'', ''.jsx'', ''.ts'', ''.tsx'', ''.mjs'', ''.cjs'']"

text \<open>The loop that strips the first extension the path ends with, then breaks.\<close>

fun strip_ext :: "string list \<Rightarrow> string \<Rightarrow> string" where
  "strip_ext [] stem = stem"
| "strip_ext (e # es) stem =
     (if endswith stem e then take (length stem - length e) stem else strip_ext es stem)"

definition js_map_file :: "file_info \<Rightarrow> (string \<rightharpoonup> string) \<Rightarrow> (string \<rightharpoonup> string)" where
  "js_map_file f file_paths =
     (let rel = rel_path f;
          file_id = ''file:'' @ rel;
          stem = strip_ext JS_STEM_EXTENSIONS rel;
          fp1 = file_paths(stem \<mapsto> file_id);
          fp2 = fp1(rel \<mapsto> file_id)
      in if endswith stem ''/index'' then fp2(take (length stem - 6) stem \<mapsto> file_id) else fp2)"

definition js_file_paths :: "file_info list \<Rightarrow> (string \<rightharpoonup> string)" where
  "js_file_paths js_files = fold js_map_file js_files Map.empty"

definition JS_PROBE_EXTENSIONS :: "string list" where
  "JS_PROBE_EXTENSIONS = [''.js'', ''.jsx'', ''.ts'', ''.tsx'']"

text \<open>
  The probing loop over the extensions: each round looks up
  \<open>resolved + ext.replace(".", "/")\<close> and then \<open>resolved\<close> itself; \<open>tgt\<close> is the target
  the edge keeps when no round hits.
\<close>

fun js_probe_loop :: "(string \<rightharpoonup> string) \<Rightarrow> string \<Rightarrow> string list \<Rightarrow> string \<Rightarrow> string" where
  "js_probe_loop file_paths resolved [] tgt = tgt"
| "js_probe_loop file_paths resolved (e # es) tgt =
     (case file_paths (resolved @ str_replace ''.'' ''/'' e) of
        Some fid \<Rightarrow> fid
      | None \<Rightarrow> (case file_paths resolved of
                   Some fid \<Rightarrow> fid
                 | None \<Rightarrow> js_probe_loop file_paths resolved es tgt))"

text \<open>The path a relative specifier \<open>md\<close> names, seen from the edge's source \<open>src_id\<close>.\<close>

definition js_resolved :: "string \<Rightarrow> string \<Rightarrow> string" where
  "js_resolved src_id md =
     (let source_file = str_replace ''file:'' [] src_id;
          d0 = str_replace backslash ''/'' (path_str (path_parent (Path source_file)));
          source_dir = (if d0 = ''.'' then [] else d0);
          r0 = str_replace backslash ''/'' (path_str (path_div (Path source_dir) md))
      in str_replace backslash ''/'' (path_str (Path r0)))"

definition js_resolve_edge :: "(string \<rightharpoonup> string) \<Rightarrow> edge \<Rightarrow> edge" where
  "js_resolve_edge file_paths e =
     (if edge_type e = ''imports'' \<and> startswith (target e) ''module:''
      then (let md = drop (length ''module:'') (target e)
            in if startswith md ''.''
               then (let resolved = js_resolved (source e) md
                     in case file_paths resolved of
                          Some fid \<Rightarrow> e\<lparr>target := fid\<rparr>
                        | None \<Rightarrow>
                            e\<lparr>target := js_probe_loop file_paths resolved JS_PROBE_EXTENSIONS
                                           (target e)\<rparr>)
               else e)
      else e)"

definition js_resolve_imports :: "file_info list \<Rightarrow> graph \<Rightarrow> graph" where
  "js_resolve_imports js_files g =
     g\<lparr>edges := map (js_resolve_edge (js_file_paths js_files)) (edges g)\<rparr>"

section \<open>Orchestrator (orchestrator.py)\<close>

definition PYTHON_EXTENSIONS :: "string list" where
  "PYTHON_EXTENSIONS = [''.py'', ''.pyi'']"

definition JS_EXTENSIONS :: "string list" where
  "JS_EXTENSIONS = [''.js'', ''.jsx'', ''.ts'', ''.tsx'', ''.mjs'', ''.cjs'']"

text \<open>
  \<open>analyze_repo\<close> up to the call of \<open>resolve_edges\<close>; \<open>files\<close> is what \<open>collect_files\<close>
  returned (the walk of the file system is not modelled).
\<close>

definition build_graph :: "world \<Rightarrow> file_info list \<Rightarrow> graph" where
  "build_graph w files =
     (let python_files = filter (\<lambda>f. ext f \<in> set PYTHON_EXTENSIONS) files;
          js_files = filter (\<lambda>f. ext f \<in> set JS_EXTENSIONS) files;
          g1 = fold (generic_analyze_file w) files Graph;
          g2 = (if python_files \<noteq> []
                then py_resolve_imports python_files (fold (py_analyze_file w) python_files g1)
                else g1)
      in if js_files \<noteq> []
         then js_resolve_imports js_files (fold (js_analyze_file w) js_files g2)
         else g2)"

definition analyze_repo :: "world \<Rightarrow> string \<Rightarrow> file_info list \<Rightarrow> graph_dict" where
  "analyze_repo w repo_path files =
     (to_dict (resolve_edges (build_graph w files)))
       \<lparr>gd_repo_name := path_name (Path repo_path)\<rparr>"

section \<open>Notions used to state the properties\<close>

text \<open>The edges of a graph that leave, enter, or touch the node id \<open>k\<close>, counted.\<close>

definition out_count :: "graph \<Rightarrow> string \<Rightarrow> int" where
  "out_count g k = int (length (filter (\<lambda>e. source e = k) (edges g)))"

definition in_count :: "graph \<Rightarrow> string \<Rightarrow> int" where
  "in_count g k = int (length (filter (\<lambda>e. target e = k) (edges g)))"

definition touching_count :: "graph \<Rightarrow> string \<Rightarrow> int" where
  "touching_count g k = int (length (filter (\<lambda>e. source e = k \<or> target e = k) (edges g)))"


definition self_count :: "graph \<Rightarrow> string \<Rightarrow> int" where
  "self_count g k = int (length (filter (\<lambda>e. source e = k \<and> target e = k) (edges g)))"

text \<open>The first edge of a list with the key of \<open>e\<close>.\<close>

definition first_with_key :: "edge list \<Rightarrow> edge \<Rightarrow> edge option" where
  "first_with_key es e = find (\<lambda>e'. edge_key e' = edge_key e) es"


subsection \<open>The import resolution of the rich-language resolver, in the words of the specification\<close>

text \<open>
  The dotted prefixes of a module path that are shorter than the path, from the longest
  to the shortest.
\<close>

definition dotted_prefixes :: "string \<Rightarrow> string list" where
  "dotted_prefixes nm =
     (let parts = split_on CHR ''.'' nm
      in map (\<lambda>i. join ''.'' (take i parts)) (rev [1..<length parts]))"

text \<open>
  The first hit of a sequence of candidate keys, each looked up in the module map and
  then in the suffix map.
\<close>

fun first_hit ::
  "(string \<rightharpoonup> string) \<Rightarrow> (string \<rightharpoonup> string) \<Rightarrow> string list \<Rightarrow> string option" where
  "first_hit mm sm [] = None"
| "first_hit mm sm (k # ks) =
     (case mm k of
        Some fid \<Rightarrow> Some fid
      | None \<Rightarrow> (case sm k of Some fid \<Rightarrow> Some fid | None \<Rightarrow> first_hit mm sm ks))"

text \<open>
  Exact match, suffix match, then the shorter prefixes; with no hit the target stays the
  \<open>module:\<close> placeholder.
\<close>

definition spec_py_target ::
  "(string \<rightharpoonup> string) \<Rightarrow> (string \<rightharpoonup> string) \<Rightarrow> string \<Rightarrow> string" where
  "spec_py_target mm sm nm =
     (case first_hit mm sm (nm # dotted_prefixes nm) of
        Some fid \<Rightarrow> fid
      | None \<Rightarrow> ''module:'' @ nm)"

definition is_module_import :: "edge \<Rightarrow> bool" where
  "is_module_import e = (edge_type e = ''imports'' \<and> startswith (target e) ''module:'')"

definition spec_py_resolve_edge ::
  "(string \<rightharpoonup> string) \<Rightarrow> (string \<rightharpoonup> string) \<Rightarrow> edge \<Rightarrow> edge" where
  "spec_py_resolve_edge mm sm e =
     (if is_module_import e
      then e\<lparr>target := spec_py_target mm sm (drop (length ''module:'') (target e))\<rparr>
      else e)"

text \<open>Two rich-language files and the edges one of them imports through.\<close>

definition py_pkg_init :: file_info where
  "py_pkg_init = \<lparr>full_path = ''/r/pkg/__init__.py'', rel_path = ''pkg/__init__.py'',
                  ext = ''.py'', name = ''__init__.py''\<rparr>"

definition py_pkg_util :: file_info where
  "py_pkg_util = \<lparr>full_path = ''/r/pkg/util.py'', rel_path = ''pkg/util.py'',
                  ext = ''.py'', name = ''util.py''\<rparr>"


definition py_import_graph :: graph where
  "py_import_graph =
     \<lparr>nodes = [],
      edges = [import_edge ''file:m.py'' ''pkg'',
               import_edge ''file:m.py'' ''util'',
               import_edge ''file:m.py'' ''pkg.util.helper'',
               import_edge ''file:m.py'' ''pkg.missing.x'',
               import_edge ''file:m.py'' ''os.path'',
               Edge ''file:m.py'' ''module:pkg'' ''uses'' []]\<rparr>"


subsection \<open>Node ids and growth of the node dict\<close>

text \<open>The prefixes of the ids under which the analyzers create nodes.\<close>

definition ID_PREFIXES :: "string list" where
  "ID_PREFIXES =
     [''file:'', ''class:'', ''class_ref:'', ''endpoint:'', ''func:'', ''model:'', ''router:'']"

definition entity_id :: "string \<Rightarrow> bool" where
  "entity_id k = list_ex (\<lambda>p. prefix p k) ID_PREFIXES"

text \<open>
  \<open>grows P g g'\<close>: the node dict of \<open>g'\<close> is that of \<open>g\<close> followed by new entries, each
  stored under its own id, which is new and satisfies \<open>P\<close>. Nothing is said of the edges.
\<close>

definition grows :: "(string \<Rightarrow> bool) \<Rightarrow> graph \<Rightarrow> graph \<Rightarrow> bool" where
  "grows P g g' =
     (\<exists>ns. nodes g' = nodes g @ ns \<and> distinct (map fst ns)
        \<and> list_all (\<lambda>(k, n). k = node_id n \<and> P k \<and> \<not> has_node g k) ns)"

text \<open>The node the generic pass creates for a file descriptor.\<close>

definition generic_node :: "file_info \<Rightarrow> node" where
  "generic_node f =
     Node (''file:'' @ rel_path f) (name f)
          (classify_by_path (rel_path f) (name f) (ext f)) (rel_path f) 0
          [(''extension'', MStr (ext f))]"

text \<open>The first descriptor of a list with the relative path of \<open>f\<close>.\<close>

definition first_descriptor :: "file_info list \<Rightarrow> file_info \<Rightarrow> file_info option" where
  "first_descriptor files f = find (\<lambda>f'. rel_path f' = rel_path f) files"

definition generic_pass :: "world \<Rightarrow> file_info list \<Rightarrow> graph" where
  "generic_pass w files = fold (generic_analyze_file w) files Graph"

subsection \<open>Route matches\<close>

text \<open>The alternatives of the verb group of \<open>RE_EXPRESS_ROUTE\<close>.\<close>

definition ROUTE_VERBS :: "string list" where
  "ROUTE_VERBS =
     [''get'', ''post'', ''put'', ''patch'', ''delete'', ''all'', ''use'', ''head'', ''options'']"

definition match_id :: "file_info \<Rightarrow> string \<times> string \<times> nat \<Rightarrow> string" where
  "match_id f m = route_id f (fst m) (fst (snd m))"

text \<open>
  The matches that bring a new id: those whose id is not in \<open>seen\<close> and not the id of an
  earlier match.
\<close>

fun new_routes ::
  "string list \<Rightarrow> file_info \<Rightarrow> (string \<times> string \<times> nat) list \<Rightarrow> (string \<times> string \<times> nat) list" where
  "new_routes seen f [] = []"
| "new_routes seen f (m # ms) =
     (if match_id f m \<in> set seen then new_routes seen f ms
      else m # new_routes (match_id f m # seen) f ms)"

definition route_edge :: "file_info \<Rightarrow> string \<Rightarrow> string \<times> string \<times> nat \<Rightarrow> edge" where
  "route_edge f file_id m = Edge file_id (match_id f m) ''endpoint_handler'' []"


subsection \<open>The serialized output\<close>

text \<open>
  Every edge of the output joins serialized nodes, no two edges share a key, and each is
  the first edge with its key in the edge list \<open>before\<close> validation.
\<close>

definition valid_output :: "edge list \<Rightarrow> graph_dict \<Rightarrow> bool" where
  "valid_output before out =
     (list_all (\<lambda>e. source e \<in> set (map nd_id (gd_nodes out))
                   \<and> target e \<in> set (map nd_id (gd_nodes out))) (gd_edges out)
      \<and> distinct (map edge_key (gd_edges out))
      \<and> list_all (\<lambda>e. first_with_key before e = Some e) (gd_edges out))"

definition no_module_target :: "edge list \<Rightarrow> bool" where
  "no_module_target es = list_all (\<lambda>e. \<not> startswith (target e) ''module:'') es"

subsection \<open>A small repository\<close>

text \<open>
  Five files: a rich-language file that does not parse, one that does, two script files
  of one directory, and a file of no dedicated extractor.
\<close>

definition f_bad :: file_info where
  "f_bad = \<lparr>full_path = ''/r/bad.py'', rel_path = ''bad.py'', ext = ''.py'', name = ''bad.py''\<rparr>"

definition f_models :: file_info where
  "f_models = \<lparr>full_path = ''/r/app/models.py'', rel_path = ''app/models.py'',
                ext = ''.py'', name = ''models.py''\<rparr>"

definition f_x :: file_info where
  "f_x = \<lparr>full_path = ''/r/a/x.js'', rel_path = ''a/x.js'', ext = ''.js'', name = ''x.js''\<rparr>"

definition f_y :: file_info where
  "f_y = \<lparr>full_path = ''/r/a/y.js'', rel_path = ''a/y.js'', ext = ''.js'', name = ''y.js''\<rparr>"

definition f_readme :: file_info where
  "f_readme = \<lparr>full_path = ''/r/main.c'', rel_path = ''main.c'', ext = ''.c'', name = ''main.c''\<rparr>"

definition demo_files :: "file_info list" where
  "demo_files = [f_bad, f_models, f_x, f_y, f_readme]"

definition models_tree :: py_module where
  "models_tree =
     \<lparr>walk_classes =
        [\<lparr>cls_name = ''User'', cls_bases = [Attribute (Name ''db'') ''Model''],
          cls_decorator_list = [], cls_lineno = 3,
          cls_walk_funcs = [\<lparr>fn_name = ''show'',
                             fn_decorator_list = [Call (Attribute (Name ''app'') ''get'')],
                             fn_lineno = 5, fn_is_async = False\<rparr>]\<rparr>],
      child_funcs = [\<lparr>fn_name = ''nightly'', fn_decorator_list = [Name ''shared_task''],
                      fn_lineno = 9, fn_is_async = True\<rparr>],
      walk_imports = [Import [''os''], ImportFrom (Some ''app.models''), ImportFrom None],
      walk_calls = [Attribute (Name ''requests'') ''get'', Name ''print'']\<rparr>"

definition x_text :: string where
  "x_text = ''import y from ./y'' @ [newline] @ ''app.get(/u, h)'' @ [newline] @ ''app.use(, m)''"

definition no_js_matches :: js_matches where
  "no_js_matches =
     \<lparr>express_routes = [], class_decls = [], function_exports = [], const_arrows = [],
      mongoose_models = [], sequelize_defines = [], import_froms = [], requires = [],
      dynamic_imports = [], fetch_call = False, axios_method = False, db_read = False,
      db_write = False, router_init = False\<rparr>"

definition x_matches :: js_matches where
  "x_matches = no_js_matches\<lparr>express_routes := [(''get'', ''/u'', 18), (''use'', [], 33),
                                                 (''get'', ''/u'', 18)],
                             import_froms := [''./y'', ''express'']\<rparr>"

definition no_generic_matches :: generic_matches where
  "no_generic_matches = \<lparr>re_include = [], re_using = [], re_use = [], re_go_import = []\<rparr>"

definition demo_world :: world where
  "demo_world =
     \<lparr>read_text = map_of [(''/r/bad.py'', ''def (''), (''/r/app/models.py'', ''models''),
                          (''/r/a/x.js'', x_text), (''/r/a/y.js'', ''y''),
                          (''/r/main.c'', ''main'')],
      ast_parse = map_of [(''models'', models_tree)],
      js_finditer = (\<lambda>src. if src = x_text then x_matches else no_js_matches),
      generic_finditer = (\<lambda>src. if src = ''main''
                                  then no_generic_matches\<lparr>re_include := [''stdio.h'']\<rparr>
                                  else no_generic_matches)\<rparr>"

text \<open>
  Two script files: \<open>a/x.js\<close>, which imports \<open>./y\<close>, and a file \<open>js.ts\<close> in the
  directory \<open>a/y\<close>.
\<close>

definition f_y_js :: file_info where
  "f_y_js = \<lparr>full_path = ''/r/a/y/js.ts'', rel_path = ''a/y/js.ts'', ext = ''.ts'',
              name = ''js.ts''\<rparr>"

definition probe_world :: world where
  "probe_world =
     \<lparr>read_text = map_of [(''/r/a/x.js'', ''x''), (''/r/a/y/js.ts'', ''y'')],
      ast_parse = (\<lambda>src. None),
      js_finditer = (\<lambda>src. if src = ''x'' then no_js_matches\<lparr>import_froms := [''./y'']\<rparr>
                             else no_js_matches),
      generic_finditer = (\<lambda>src. no_generic_matches)\<rparr>"

text \<open>Small graphs for the concrete instances.\<close>

definition file_a :: node where
  "file_a = Node ''file:a'' ''a'' ''file'' ''a'' 0 []"

definition file_a2 :: node where
  "file_a2 = Node ''file:a'' ''other'' ''test'' ''b'' 7 [(''extension'', MStr ''.x'')]"

definition file_b :: node where
  "file_b = Node ''file:b'' ''b'' ''file'' ''b'' 0 []"

definition loop_graph :: graph where
  "loop_graph = \<lparr>nodes = [(''file:a'', file_a)],
                 edges = [self_edge ''file:a'' ''db_read'' []]\<rparr>"

definition dup_graph :: graph where
  "dup_graph =
     \<lparr>nodes = [(''file:a'', file_a), (''file:b'', file_b)],
      edges = [Edge ''file:a'' ''file:b'' ''imports'' [(''n'', MStr ''1'')],
               Edge ''file:a'' ''module:os'' ''imports'' [],
               Edge ''file:a'' ''file:b'' ''imports'' [(''n'', MStr ''2'')],
               Edge ''file:a'' ''file:b'' ''uses'' []]\<rparr>"

section \<open>Properties of the graph model\<close>

subsection \<open>\<open>resolve_edges\<close>\<close>

lemma resolve_loop_append:
  "resolve_loop ids es valid seen = valid @ resolve_loop ids es [] seen"
proof (induction es arbitrary: valid seen)
  case Nil show ?case by simp
next
  case (Cons e es)
  show ?case
    using Cons.IH[of "valid @ [e]" "edge_key e # seen"] Cons.IH[of "[e]" "edge_key e # seen"]
          Cons.IH[of valid seen]
    by simp
qed

lemma resolve_loop_Cons:
  "resolve_loop ids (e # es) [] seen =
     (if source e \<in> set ids \<and> target e \<in> set ids \<and> edge_key e \<notin> set seen
      then e # resolve_loop ids es [] (edge_key e # seen)
      else resolve_loop ids es [] seen)"
  using resolve_loop_append[of ids es "[e]" "edge_key e # seen"] by simp

lemma resolve_loop_subset:
  "set (resolve_loop ids es [] seen) \<subseteq> set es"
  by (induction es arbitrary: seen) (auto simp: resolve_loop_Cons simp del: resolve_loop.simps(2))

lemma resolve_loop_valid:
  "e \<in> set (resolve_loop ids es [] seen) \<Longrightarrow>
     source e \<in> set ids \<and> target e \<in> set ids \<and> edge_key e \<notin> set seen"
proof (induction es arbitrary: seen)
  case Nil then show ?case by simp
next
  case (Cons x xs)
  show ?case
  proof (cases "source x \<in> set ids \<and> target x \<in> set ids \<and> edge_key x \<notin> set seen")
    case True
    with Cons.prems have "e = x \<or> e \<in> set (resolve_loop ids xs [] (edge_key x # seen))"
      by (simp add: resolve_loop_Cons del: resolve_loop.simps(2))
    then show ?thesis using True Cons.IH[of "edge_key x # seen"] by auto
  next
    case False
    with Cons.prems have "e \<in> set (resolve_loop ids xs [] seen)"
      by (simp add: resolve_loop_Cons del: resolve_loop.simps(2))
    then show ?thesis using Cons.IH[of seen] by simp
  qed
qed

lemma resolve_loop_distinct:
  "distinct (map edge_key (resolve_loop ids es [] seen))"
  by (induction es arbitrary: seen)
     (auto simp: resolve_loop_Cons simp del: resolve_loop.simps(2) dest: resolve_loop_valid)

lemma resolve_loop_first:
  "e \<in> set (resolve_loop ids es [] seen) \<Longrightarrow>
     find (\<lambda>e'. edge_key e' = edge_key e) es = Some e"
proof (induction es arbitrary: seen)
  case Nil then show ?case by simp
next
  case (Cons x xs)
  show ?case
  proof (cases "source x \<in> set ids \<and> target x \<in> set ids \<and> edge_key x \<notin> set seen")
    case True
    with Cons.prems have "e = x \<or> e \<in> set (resolve_loop ids xs [] (edge_key x # seen))"
      by (simp add: resolve_loop_Cons del: resolve_loop.simps(2))
    then show ?thesis
    proof
      assume "e = x" then show ?thesis by simp
    next
      assume a: "e \<in> set (resolve_loop ids xs [] (edge_key x # seen))"
      then have "edge_key e \<noteq> edge_key x" using resolve_loop_valid[OF a] by auto
      then show ?thesis using Cons.IH[OF a] by simp
    qed
  next
    case False
    with Cons.prems have a: "e \<in> set (resolve_loop ids xs [] seen)"
      by (simp add: resolve_loop_Cons del: resolve_loop.simps(2))
    have "edge_key e \<noteq> edge_key x"
      using resolve_loop_valid[OF a] False by (auto simp: edge_key_def)
    then show ?thesis using Cons.IH[OF a] by simp
  qed
qed

lemma resolve_loop_fixed:
  "\<forall>e \<in> set es. source e \<in> set ids \<and> target e \<in> set ids \<and> edge_key e \<notin> set seen \<Longrightarrow>
   distinct (map edge_key es) \<Longrightarrow> resolve_loop ids es [] seen = es"
proof (induction es arbitrary: seen)
  case Nil then show ?case by simp
next
  case (Cons x xs)
  have "\<forall>e \<in> set xs. source e \<in> set ids \<and> target e \<in> set ids
          \<and> edge_key e \<notin> set (edge_key x # seen)"
    using Cons.prems by (auto simp: image_iff)
  moreover have "distinct (map edge_key xs)" using Cons.prems by simp
  ultimately have "resolve_loop ids xs [] (edge_key x # seen) = xs" by (rule Cons.IH)
  then show ?case using Cons.prems
    by (simp add: resolve_loop_Cons del: resolve_loop.simps(2))
qed

lemma resolve_loop_idem:
  "resolve_loop ids (resolve_loop ids es [] []) [] [] = resolve_loop ids es [] []"
  by (rule resolve_loop_fixed) (auto dest: resolve_loop_valid simp: resolve_loop_distinct)

lemma nodes_resolve_edges: "nodes (resolve_edges g) = nodes g"
  by (simp add: resolve_edges_def)

lemma edges_resolve_edges:
  "edges (resolve_edges g) = resolve_loop (node_ids g) (edges g) [] []"
  by (simp add: resolve_edges_def)

text \<open>
  C10. \<open>resolve_edges\<close> is idempotent (a second pass returns the same graph, node dict and
  edge list alike), and it leaves the node dict of the graph as it was: it adds, removes
  and changes no node.
\<close>

theorem resolve_edges_idempotent_frame:
  "resolve_edges (resolve_edges g) = resolve_edges g
   \<and> nodes (resolve_edges (resolve_edges g)) = nodes (resolve_edges g)
   \<and> edges (resolve_edges (resolve_edges g)) = edges (resolve_edges g)
   \<and> nodes (resolve_edges g) = nodes g"
  by (simp add: resolve_edges_def node_ids_def resolve_loop_idem)

theorem resolve_edges_idempotent_frame_witness:
  "resolve_edges (resolve_edges dup_graph) = resolve_edges dup_graph
   \<and> nodes (resolve_edges (resolve_edges dup_graph)) = nodes (resolve_edges dup_graph)
   \<and> edges (resolve_edges (resolve_edges dup_graph)) = edges (resolve_edges dup_graph)
   \<and> nodes (resolve_edges dup_graph) = nodes dup_graph"
  by (rule resolve_edges_idempotent_frame)

subsection \<open>\<open>add_node\<close>\<close>

lemma has_node_map_of: "has_node g k \<longleftrightarrow> map_of (nodes g) k \<noteq> None"
  by (simp add: has_node_def node_ids_def map_of_eq_None_iff)

text \<open>
  C2. \<open>add_node\<close> appends the node under its id when the id is absent and returns the graph
  as it is when the id is present; it is a total function with no error result and never
  touches the edges. A second node under the id of an inserted one changes nothing: the
  graph stays the same, and the id still leads to the first node with all its fields.
\<close>

theorem add_node_first_wins:
  "(\<not> has_node g (node_id n) \<longrightarrow> nodes (add_node n g) = nodes g @ [(node_id n, n)])
   \<and> (has_node g (node_id n) \<longrightarrow> add_node n g = g)
   \<and> edges (add_node n g) = edges g
   \<and> (has_node g k \<longrightarrow> lookup_node (add_node n g) k = lookup_node g k)
   \<and> (node_id n2 = node_id n \<longrightarrow> add_node n2 (add_node n g) = add_node n g)
   \<and> (node_id n2 = node_id n \<and> \<not> has_node g (node_id n)
        \<longrightarrow> lookup_node (add_node n2 (add_node n g)) (node_id n) = Some n)"
  by (auto simp: add_node_def has_node_def node_ids_def lookup_node_def map_add_def
        map_of_eq_None_iff[symmetric] split: option.splits)

theorem add_node_first_wins_witness:
  "\<not> has_node Graph (node_id file_a) \<and> node_id file_a2 = node_id file_a
   \<and> file_a2 \<noteq> file_a
   \<and> nodes (add_node file_a Graph) = [(''file:a'', file_a)]
   \<and> add_node file_a2 (add_node file_a Graph) = add_node file_a Graph
   \<and> lookup_node (add_node file_a2 (add_node file_a Graph)) ''file:a'' = Some file_a"
proof -
  have a: "\<not> has_node Graph (node_id file_a)"
    by (simp add: has_node_def node_ids_def Graph_def)
  have b: "node_id file_a2 = node_id file_a"
    by (simp add: file_a_def file_a2_def Node_def)
  have c: "file_a2 \<noteq> file_a"
    by (simp add: file_a_def file_a2_def Node_def)
  have d: "node_id file_a = ''file:a''"
    by (simp add: file_a_def Node_def)
  note t = add_node_first_wins[of Graph file_a _ file_a2]
  have "nodes (add_node file_a Graph) = [(''file:a'', file_a)]"
    using t a d by (simp add: Graph_def)
  moreover have "add_node file_a2 (add_node file_a Graph) = add_node file_a Graph"
    using t b by blast
  moreover have "lookup_node (add_node file_a2 (add_node file_a Graph)) ''file:a'' = Some file_a"
    using t a b d by metis
  ultimately show ?thesis using a b c by blast
qed

subsection \<open>\<open>to_dict\<close>\<close>

lemma get0_bump: "get0 (bump k m) k' = get0 m k' + (if k = k' then 1 else 0)"
  by (simp add: get0_def bump_def)

lemma get0_degree_fold:
  "get0 (fold (\<lambda>e m. bump (target e) (bump (source e) m)) es m) k =
     get0 m k + int (length (filter (\<lambda>e. source e = k) es))
              + int (length (filter (\<lambda>e. target e = k) es))"
  by (induction es arbitrary: m) (auto simp: get0_bump)

lemma get0_zero_init: "get0 (map_of (map (\<lambda>(k, n). (k, 0)) ns)) k = 0"
  by (induction ns) (auto simp: get0_def)

lemma get0_node_degree: "get0 (node_degree g) k = out_count g k + in_count g k"
  by (simp add: node_degree_def get0_degree_fold get0_zero_init out_count_def in_count_def)

lemma gd_nodes_to_dict:
  "gd_nodes (to_dict g) =
     map (\<lambda>(k, n). node_to_dict n (out_count g k + in_count g k)) (nodes g)"
  by (simp add: to_dict_def Let_def get0_node_degree)

lemma gd_edges_to_dict: "gd_edges (to_dict g) = edges g"
  by (simp add: to_dict_def Let_def)

lemma nd_ids_to_dict:
  "graph_inv g \<Longrightarrow> map nd_id (gd_nodes (to_dict g)) = node_ids g"
  by (auto simp: gd_nodes_to_dict graph_inv_def node_ids_def node_to_dict_def list_all_iff)

lemma filter_or_and_length:
  "int (length (filter P xs)) + int (length (filter Q xs)) =
     int (length (filter (\<lambda>x. P x \<or> Q x) xs)) + int (length (filter (\<lambda>x. P x \<and> Q x) xs))"
  by (induction xs) auto

lemma out_in_touching: "out_count g k + in_count g k = touching_count g k + self_count g k"
  unfolding out_count_def in_count_def touching_count_def self_count_def
  by (rule filter_or_and_length)

text \<open>
  C8, as the code has it. The degree that \<open>to_dict\<close> reports for a node is the number of
  edges whose source is its id plus the number of edges whose target is its id: the number
  of edges that touch the node, with every self-referencing edge counted twice.
\<close>

theorem degree_counts_edge_ends:
  "gd_nodes (to_dict g) =
     map (\<lambda>(k, n). node_to_dict n (out_count g k + in_count g k)) (nodes g)
   \<and> (\<forall>k. out_count g k + in_count g k = touching_count g k + self_count g k)"
  by (simp add: gd_nodes_to_dict out_in_touching)

theorem degree_counts_edge_ends_witness:
  "map nd_degree (gd_nodes (to_dict dup_graph)) = [4, 3]
   \<and> touching_count dup_graph ''file:a'' + self_count dup_graph ''file:a'' = 4"
proof -
  note t = degree_counts_edge_ends[of dup_graph]
  have a: "gd_nodes (to_dict dup_graph) =
             map (\<lambda>(k, n). node_to_dict n (out_count dup_graph k + in_count dup_graph k))
                 (nodes dup_graph)"
    using t by blast
  have b: "out_count dup_graph ''file:a'' + in_count dup_graph ''file:a'' =
             touching_count dup_graph ''file:a'' + self_count dup_graph ''file:a''"
    using t by blast
  have c: "out_count dup_graph ''file:a'' = 4" "in_count dup_graph ''file:a'' = 0"
          "out_count dup_graph ''file:b'' = 0" "in_count dup_graph ''file:b'' = 3"
    by (simp_all add: dup_graph_def out_count_def in_count_def Edge_def)
  have n: "nodes dup_graph = [(''file:a'', file_a), (''file:b'', file_b)]"
    by (simp add: dup_graph_def)
  have "map nd_degree (gd_nodes (to_dict dup_graph)) = [4, 3]"
    unfolding a n by (simp add: c node_to_dict_def)
  then show ?thesis using b c by simp
qed

text \<open>
  C8 as the claim states it fails: one node with one self-referencing edge is reported
  with degree 2, while one edge touches it.
\<close>

theorem degree_self_edge_counterexample:
  "map nd_id (gd_nodes (to_dict loop_graph)) = [''file:a'']
   \<and> map nd_degree (gd_nodes (to_dict loop_graph)) = [2]
   \<and> touching_count loop_graph ''file:a'' = 1"
  by (simp add: gd_nodes_to_dict loop_graph_def out_count_def in_count_def touching_count_def
        self_edge_def Edge_def node_to_dict_def file_a_def Node_def)

subsection \<open>The rich-language import resolver\<close>

lemma split_on_nonempty: "split_on c s \<noteq> []"
  by (induction s) (auto split: list.splits)

lemma join_Cons_Cons: "ps \<noteq> [] \<Longrightarrow> join sep ((x # p) # ps) = x # join sep (p # ps)"
  by (cases ps) auto

lemma join_split_on: "join [c] (split_on c s) = s"
proof (induction s)
  case Nil show ?case by simp
next
  case (Cons x xs)
  obtain p ps where sp: "split_on c xs = p # ps"
    using split_on_nonempty[of c xs] by (cases "split_on c xs") auto
  show ?case
  proof (cases "x = c")
    case True
    then show ?thesis using Cons sp by simp
  next
    case False
    then show ?thesis using Cons sp by (cases ps) auto
  qed
qed

lemma py_prefix_loop_first_hit:
  "py_prefix_loop mm sm parts i tgt =
     (case first_hit mm sm (map (\<lambda>j. join ''.'' (take j parts)) (rev [1..<Suc i])) of
        Some fid \<Rightarrow> fid | None \<Rightarrow> tgt)"
  by (induction i) (auto simp: Let_def split: option.splits)

lemma py_resolve_target_spec:
  assumes t: "t = ''module:'' @ nm"
  shows "(case mm nm of Some fid \<Rightarrow> fid
          | None \<Rightarrow> (case sm nm of Some fid \<Rightarrow> fid
             | None \<Rightarrow> py_prefix_loop mm sm (split_on CHR ''.'' nm)
                         (length (split_on CHR ''.'' nm)) t))
         = spec_py_target mm sm nm"
proof -
  let ?parts = "split_on CHR ''.'' nm"
  obtain n where n: "length ?parts = Suc n"
    using split_on_nonempty[of "CHR ''.''" nm] by (cases ?parts) auto
  have full: "join ''.'' (take (Suc n) ?parts) = nm"
    using n join_split_on[of "CHR ''.''" nm] by simp
  have keys: "map (\<lambda>j. join ''.'' (take j ?parts)) (rev [1..<Suc (Suc n)])
                = nm # dotted_prefixes nm"
    using full by (simp add: dotted_prefixes_def Let_def n)
  have loop: "py_prefix_loop mm sm ?parts (length ?parts) tgt =
                (case first_hit mm sm (nm # dotted_prefixes nm) of
                   Some fid \<Rightarrow> fid | None \<Rightarrow> tgt)" for tgt
    unfolding n py_prefix_loop_first_hit keys ..
  show ?thesis
    unfolding t loop spec_py_target_def
    by (cases "mm nm"; cases "sm nm"; simp)
qed

lemma py_resolve_edge_refines: "py_resolve_edge mm sm e = spec_py_resolve_edge mm sm e"
proof (cases "is_module_import e")
  case False
  then have c: "(edge_type e = ''imports'' \<and> startswith (target e) ''module:'') = False"
    by (simp add: is_module_import_def)
  show ?thesis unfolding py_resolve_edge_def spec_py_resolve_edge_def c using False by simp
next
  case True
  then have s: "startswith (target e) ''module:''" and ty: "edge_type e = ''imports''"
    by (simp_all add: is_module_import_def)
  from s obtain nm where tn: "target e = ''module:'' @ nm"
    unfolding startswith_def prefix_def by auto
  have d: "drop (length ''module:'') (target e) = nm" by (simp add: tn)
  note r = py_resolve_target_spec[OF tn, of mm sm]
  have "py_resolve_edge mm sm e =
          e\<lparr>target := (case mm nm of Some fid \<Rightarrow> fid
             | None \<Rightarrow> (case sm nm of Some fid \<Rightarrow> fid
                | None \<Rightarrow> py_prefix_loop mm sm (split_on CHR ''.'' nm)
                            (length (split_on CHR ''.'' nm)) (target e)))\<rparr>"
    unfolding py_resolve_edge_def Let_def d using s ty
    by (simp split: option.splits)
  also have "\<dots> = e\<lparr>target := spec_py_target mm sm nm\<rparr>" unfolding r ..
  also have "\<dots> = spec_py_resolve_edge mm sm e"
    unfolding spec_py_resolve_edge_def d using True by simp
  finally show ?thesis .
qed

text \<open>
  C3. On a deferred \<open>imports\<close> edge whose target is a \<open>module:\<close> placeholder the
  rich-language resolver writes, in place, the first hit of: the module path in the module
  map, then in the suffix map, then each shorter dotted prefix, longest first, in the
  module map and then in the suffix map; with no hit the target stays the placeholder.
  Every other edge, and every other field of the edge, is left as it was.
\<close>

theorem py_resolve_imports_first_hit:
  "py_resolve_edge mm sm e = spec_py_resolve_edge mm sm e
   \<and> py_resolve_imports python_files g =
       g\<lparr>edges := map (spec_py_resolve_edge (fst (py_maps python_files))
                                            (snd (py_maps python_files))) (edges g)\<rparr>"
  by (simp add: py_resolve_imports_def Let_def py_resolve_edge_refines)

theorem py_resolve_imports_first_hit_witness:
  "map target (edges (py_resolve_imports [py_pkg_init, py_pkg_util] py_import_graph)) =
     [''file:pkg/__init__.py'', ''file:pkg/util.py'', ''file:pkg/util.py'',
      ''file:pkg/__init__.py'', ''module:os.path'', ''module:pkg'']"
proof -
  have eq: "py_resolve_imports [py_pkg_init, py_pkg_util] py_import_graph =
          py_import_graph\<lparr>edges :=
            map (spec_py_resolve_edge (fst (py_maps [py_pkg_init, py_pkg_util]))
                                      (snd (py_maps [py_pkg_init, py_pkg_util])))
                (edges py_import_graph)\<rparr>"
    using py_resolve_imports_first_hit by blast
  have "map target (edges (py_import_graph\<lparr>edges :=
            map (spec_py_resolve_edge (fst (py_maps [py_pkg_init, py_pkg_util]))
                                      (snd (py_maps [py_pkg_init, py_pkg_util])))
                (edges py_import_graph)\<rparr>)) =
     [''file:pkg/__init__.py'', ''file:pkg/util.py'', ''file:pkg/util.py'',
      ''file:pkg/__init__.py'', ''module:os.path'', ''module:pkg'']"
    by code_simp
  then show ?thesis unfolding eq .
qed

section \<open>The node dict only grows\<close>

lemma grows_refl: "grows P g g"
  by (simp add: grows_def)

lemma grows_add_node:
  assumes "grows P g g1" and "P (node_id n)"
  shows "grows P g (add_node n g1)"
proof (cases "has_node g1 (node_id n)")
  case True then show ?thesis using assms by (simp add: add_node_def)
next
  case False
  from assms obtain ns where ns: "nodes g1 = nodes g @ ns" "distinct (map fst ns)"
     "list_all (\<lambda>(k, n). k = node_id n \<and> P k \<and> \<not> has_node g k) ns"
    unfolding grows_def by blast
  have "nodes (add_node n g1) = nodes g @ (ns @ [(node_id n, n)])"
    using False ns by (simp add: add_node_def)
  moreover have "distinct (map fst (ns @ [(node_id n, n)]))"
    using False ns by (auto simp: has_node_def node_ids_def)
  moreover have "list_all (\<lambda>(k, n). k = node_id n \<and> P k \<and> \<not> has_node g k) (ns @ [(node_id n, n)])"
    using False ns assms(2) by (auto simp: has_node_def node_ids_def)
  ultimately show ?thesis unfolding grows_def by blast
qed

lemma grows_edges_update: "grows P g g1 \<Longrightarrow> grows P g (g1\<lparr>edges := es\<rparr>)"
  by (simp add: grows_def)

lemma grows_add_edge: "grows P g g1 \<Longrightarrow> grows P g (add_edge e g1)"
  by (simp add: add_edge_def grows_def)

lemma grows_add_edge_deferred: "grows P g g1 \<Longrightarrow> grows P g (add_edge_deferred e g1)"
  by (simp add: add_edge_deferred_def grows_def)

lemma grows_fold:
  assumes "\<And>x g1. grows P g g1 \<Longrightarrow> grows P g (f x g1)" and "grows P g g1"
  shows "grows P g (fold f xs g1)"
  using assms(2) by (induction xs arbitrary: g1) (auto intro: assms(1))

lemma grows_fold_snd:
  assumes "\<And>x st. grows P g (snd st) \<Longrightarrow> grows P g (snd (f x st))" and "grows P g (snd st)"
  shows "grows P g (snd (fold f xs st))"
  using assms(2)
proof (induction xs arbitrary: st)
  case Nil then show ?case by simp
next
  case (Cons x xs)
  show ?case using Cons.IH[OF assms(1)[OF Cons.prems]] by simp
qed

lemma grows_obtain:
  assumes "grows P g g'"
  obtains ns where "nodes g' = nodes g @ ns" and "distinct (map fst ns)"
    and "\<And>k n. (k, n) \<in> set ns \<Longrightarrow> k = node_id n \<and> P k \<and> k \<notin> fst ` set (nodes g)"
proof -
  from assms obtain ns where ns: "nodes g' = nodes g @ ns" "distinct (map fst ns)"
     "list_all (\<lambda>(k, n). k = node_id n \<and> P k \<and> \<not> has_node g k) ns"
    unfolding grows_def by blast
  have "k = node_id n \<and> P k \<and> k \<notin> fst ` set (nodes g)" if "(k, n) \<in> set ns" for k n
    using ns(3)[unfolded list_all_iff has_node_def node_ids_def, THEN bspec, OF that] by auto
  with ns(1,2) show ?thesis using that by blast
qed

lemma grows_has_node: "grows P g g' \<Longrightarrow> has_node g k \<Longrightarrow> has_node g' k"
  by (erule grows_obtain) (simp add: has_node_def node_ids_def)

lemma grows_lookup:
  assumes "grows P g g'" and "has_node g k"
  shows "lookup_node g' k = lookup_node g k"
proof -
  from assms(1) obtain ns where ns: "nodes g' = nodes g @ ns"
     "\<And>k n. (k, n) \<in> set ns \<Longrightarrow> k = node_id n \<and> P k \<and> k \<notin> fst ` set (nodes g)"
    by (elim grows_obtain) blast
  have kg: "k \<in> fst ` set (nodes g)" using assms(2) by (simp add: has_node_def node_ids_def)
  have "k \<notin> fst ` set ns"
  proof
    assume "k \<in> fst ` set ns"
    then obtain n where "(k, n) \<in> set ns" by auto
    from ns(2)[OF this] kg show False by simp
  qed
  then have "map_of ns k = None" by (simp add: map_of_eq_None_iff)
  then show ?thesis by (simp add: lookup_node_def ns(1) map_add_def split: option.splits)
qed

lemma grows_graph_inv:
  assumes "grows P g g'" and "graph_inv g"
  shows "graph_inv g'"
proof -
  from assms(1) obtain ns where ns: "nodes g' = nodes g @ ns" "distinct (map fst ns)"
     "\<And>k n. (k, n) \<in> set ns \<Longrightarrow> k = node_id n \<and> P k \<and> k \<notin> fst ` set (nodes g)"
    by (elim grows_obtain) blast
  have d: "fst ` set (nodes g) \<inter> fst ` set ns = {}"
  proof (rule ccontr)
    assume "fst ` set (nodes g) \<inter> fst ` set ns \<noteq> {}"
    then obtain k where k: "k \<in> fst ` set (nodes g)" "k \<in> fst ` set ns" by blast
    then obtain n where "(k, n) \<in> set ns" by auto
    from ns(3)[OF this] k(1) show False by simp
  qed
  have "distinct (node_ids g')"
    using ns(1,2) assms(2) d by (simp add: node_ids_def graph_inv_def)
  moreover have "list_all (\<lambda>(k, n). k = node_id n) (nodes g')"
    unfolding list_all_iff
  proof
    fix x assume x: "x \<in> set (nodes g')"
    obtain k n where kn: "x = (k, n)" by (cases x)
    from x have "x \<in> set (nodes g) \<or> x \<in> set ns" by (simp add: ns(1))
    then show "case x of (k, n) \<Rightarrow> k = node_id n"
    proof
      assume "x \<in> set (nodes g)"
      then show ?thesis using assms(2) unfolding graph_inv_def list_all_iff by blast
    next
      assume "x \<in> set ns"
      then show ?thesis using ns(3)[of k n] kn by simp
    qed
  qed
  ultimately show ?thesis by (simp add: graph_inv_def)
qed

lemma grows_all_ids:
  assumes "grows P g g'" and "list_all P (node_ids g)"
  shows "list_all P (node_ids g')"
proof -
  from assms(1) obtain ns where ns: "nodes g' = nodes g @ ns"
     "\<And>k n. (k, n) \<in> set ns \<Longrightarrow> k = node_id n \<and> P k \<and> k \<notin> fst ` set (nodes g)"
    by (elim grows_obtain) blast
  have "list_all P (map fst ns)"
    unfolding list_all_iff using ns(2) by auto
  then show ?thesis using assms(2) by (simp add: node_ids_def ns(1))
qed

lemmas grows_intros = grows_add_node grows_add_edge grows_add_edge_deferred grows_edges_update

lemma entity_id_simps:
  "entity_id (''file:'' @ s)" "entity_id (''class:'' @ s)" "entity_id (''class_ref:'' @ s)"
  "entity_id (''endpoint:'' @ s)" "entity_id (''func:'' @ s)" "entity_id (''model:'' @ s)"
  "entity_id (''router:'' @ s)"
  by (simp_all add: entity_id_def ID_PREFIXES_def)

lemmas entity_id_norm = entity_id_simps[simplified append.simps]

lemma entity_id_not_module: "entity_id k \<Longrightarrow> \<not> startswith k ''module:''"
  by (auto simp: entity_id_def ID_PREFIXES_def startswith_def prefix_def)

lemma node_id_Node: "node_id (Node i l t fp ln md) = i"
  by (simp add: Node_def)

lemma grows_extract_generic_imports:
  "grows P g g1 \<Longrightarrow> grows P g (extract_generic_imports w f fid g1)"
  unfolding extract_generic_imports_def Let_def
  by (auto split: option.splits intro!: grows_fold grows_add_edge_deferred)

lemma grows_generic_analyze_file:
  "grows entity_id g g1 \<Longrightarrow> grows entity_id g (generic_analyze_file w f g1)"
  unfolding generic_analyze_file_def Let_def
  by (auto intro!: grows_extract_generic_imports grows_add_node simp: node_id_Node entity_id_norm)

lemma grows_py_extract_base:
  "grows entity_id g g1 \<Longrightarrow> grows entity_id g (py_extract_base cid b g1)"
  unfolding py_extract_base_def Let_def
  by (auto intro!: grows_intros simp: node_id_Node entity_id_norm)

lemma grows_py_extract_method:
  "grows entity_id g g1 \<Longrightarrow> grows entity_id g (py_extract_method f cn cid item g1)"
  unfolding py_extract_method_def Let_def
  by (auto intro!: grows_intros simp: node_id_Node entity_id_norm)

lemma grows_py_extract_class:
  "grows entity_id g g1 \<Longrightarrow> grows entity_id g (py_extract_class f fid c g1)"
  unfolding py_extract_class_def Let_def
  by (intro grows_fold grows_py_extract_method grows_py_extract_base grows_intros)
     (simp_all add: node_id_Node entity_id_norm)

lemma grows_py_extract_function:
  "grows entity_id g g1 \<Longrightarrow> grows entity_id g (py_extract_function f fid fd g1)"
  unfolding py_extract_function_def Let_def
  by (auto intro!: grows_intros simp: node_id_Node entity_id_norm)

lemma grows_py_extract_import:
  "grows P g g1 \<Longrightarrow> grows P g (py_extract_import fid st g1)"
  by (cases "(fid, st, g1)" rule: py_extract_import.cases)
     (auto intro!: grows_fold grows_add_edge_deferred)

lemma grows_py_extract_call:
  "grows P g g1 \<Longrightarrow> grows P g (py_extract_call fid c g1)"
  by (cases "(fid, c, g1)" rule: py_extract_call.cases)
     (auto simp: Let_def intro!: grows_add_edge_deferred)

lemma grows_py_analyze_file:
  "grows entity_id g g1 \<Longrightarrow> grows entity_id g (py_analyze_file w f g1)"
  unfolding py_analyze_file_def Let_def py_extract_classes_def py_extract_functions_def
    py_extract_imports_def py_extract_calls_def
  by (auto split: option.splits
        intro!: grows_fold grows_py_extract_call grows_py_extract_import
                grows_py_extract_function grows_py_extract_class)

lemma grows_py_resolve_imports:
  "grows P g g1 \<Longrightarrow> grows P g (py_resolve_imports fs g1)"
  unfolding py_resolve_imports_def Let_def by (rule grows_edges_update)

lemma node_id_route_node: "node_id (route_node src f m) = match_id f m"
  by (cases m) (simp add: route_node_def match_id_def Let_def node_id_Node)

lemma entity_id_match_id: "entity_id (match_id f m)"
  by (simp add: match_id_def route_id_def entity_id_norm)

lemma grows_js_extract_route:
  "grows entity_id g g1 \<Longrightarrow> grows entity_id g (js_extract_route src f fid m g1)"
  unfolding js_extract_route_def
  by (intro grows_intros) (simp_all add: node_id_route_node entity_id_match_id)

lemma grows_js_extract_class:
  "grows entity_id g (snd st) \<Longrightarrow> grows entity_id g (snd (js_extract_class src f fid m st))"
  unfolding js_extract_class_def Let_def
  by (cases m) (auto split: option.splits intro!: grows_intros simp: node_id_Node entity_id_norm)

lemma grows_js_extract_function:
  "grows entity_id g (snd st) \<Longrightarrow> grows entity_id g (snd (js_extract_function src f fid m st))"
  unfolding js_extract_function_def Let_def
  by (cases m) (auto intro!: grows_intros simp: node_id_Node entity_id_norm)

lemma grows_js_extract_functions_and_classes:
  "grows entity_id g g1 \<Longrightarrow>
     grows entity_id g (js_extract_functions_and_classes src m f fid g1)"
  unfolding js_extract_functions_and_classes_def Let_def
  by (intro grows_fold_snd grows_js_extract_function grows_js_extract_class) simp_all

lemma grows_js_extract_model:
  "grows entity_id g g1 \<Longrightarrow> grows entity_id g (js_extract_model src f fid m g1)"
  unfolding js_extract_model_def Let_def
  by (cases m) (auto intro!: grows_intros simp: node_id_Node entity_id_norm)

lemma grows_js_extract_imports:
  "grows P g g1 \<Longrightarrow> grows P g (js_extract_imports m fid g1)"
  unfolding js_extract_imports_def by (intro grows_fold grows_add_edge_deferred)

lemma grows_js_extract_api_calls:
  "grows P g g1 \<Longrightarrow> grows P g (js_extract_api_calls m fid g1)"
  unfolding js_extract_api_calls_def by (auto intro!: grows_add_edge_deferred)

lemma grows_js_extract_db_ops:
  "grows P g g1 \<Longrightarrow> grows P g (js_extract_db_ops m fid g1)"
  unfolding js_extract_db_ops_def Let_def by (auto intro!: grows_add_edge_deferred)

lemma grows_js_detect_router:
  "grows entity_id g g1 \<Longrightarrow> grows entity_id g (js_detect_router m f fid g1)"
  unfolding js_detect_router_def Let_def
  by (auto intro!: grows_intros simp: node_id_Node entity_id_norm)

lemma grows_js_analyze_file:
  "grows entity_id g (js_analyze_file w f g1)" if "grows entity_id g g1"
proof (cases "read_text w (full_path f)")
  case None
  then show ?thesis using that by (simp add: js_analyze_file_def)
next
  case (Some src)
  show ?thesis
    unfolding js_analyze_file_def Some option.case Let_def js_extract_routes_def
      js_extract_models_def
    by (intro grows_js_detect_router grows_js_extract_db_ops grows_js_extract_api_calls
          grows_js_extract_imports grows_fold grows_js_extract_model
          grows_js_extract_functions_and_classes grows_js_extract_route that)
qed

lemma grows_js_resolve_imports:
  "grows P g g1 \<Longrightarrow> grows P g (js_resolve_imports fs g1)"
  unfolding js_resolve_imports_def by (rule grows_edges_update)

lemma grows_build_graph_from:
  "grows entity_id (generic_pass w files) (build_graph w files)"
proof -
  let ?g1 = "generic_pass w files"
  let ?py = "filter (\<lambda>f. ext f \<in> set PYTHON_EXTENSIONS) files"
  let ?js = "filter (\<lambda>f. ext f \<in> set JS_EXTENSIONS) files"
  let ?g2 = "if ?py \<noteq> [] then py_resolve_imports ?py (fold (py_analyze_file w) ?py ?g1) else ?g1"
  have a: "grows entity_id ?g1 ?g2"
    by (simp add: grows_refl grows_py_resolve_imports grows_fold grows_py_analyze_file)
  have b: "grows entity_id ?g1
             (if ?js \<noteq> [] then js_resolve_imports ?js (fold (js_analyze_file w) ?js ?g2) else ?g2)"
    using a by (simp add: grows_js_resolve_imports grows_fold grows_js_analyze_file)
  show ?thesis
    unfolding build_graph_def Let_def generic_pass_def[symmetric] by (rule b)
qed

lemma grows_generic_pass: "grows entity_id Graph (generic_pass w files)"
  unfolding generic_pass_def
  by (intro grows_fold grows_generic_analyze_file grows_refl)

lemma grows_trans:
  assumes a: "grows P g g1" and b: "grows P g1 g2"
  shows "grows P g g2"
proof -
  from a obtain ns where ns: "nodes g1 = nodes g @ ns" "distinct (map fst ns)"
     "\<And>k n. (k, n) \<in> set ns \<Longrightarrow> k = node_id n \<and> P k \<and> k \<notin> fst ` set (nodes g)"
    by (elim grows_obtain) blast
  from b obtain ms where ms: "nodes g2 = nodes g1 @ ms" "distinct (map fst ms)"
     "\<And>k n. (k, n) \<in> set ms \<Longrightarrow> k = node_id n \<and> P k \<and> k \<notin> fst ` set (nodes g1)"
    by (elim grows_obtain) blast
  have k1: "fst ` set (nodes g1) = fst ` set (nodes g) \<union> fst ` set ns"
    by (simp add: ns(1) image_Un)
  have disj: "fst ` set ns \<inter> fst ` set ms = {}"
  proof (rule ccontr)
    assume "fst ` set ns \<inter> fst ` set ms \<noteq> {}"
    then obtain k where k: "k \<in> fst ` set ns" "k \<in> fst ` set ms" by blast
    then obtain v where "(k, v) \<in> set ms" by auto
    from ms(3)[OF this] k(1) show False unfolding k1 by simp
  qed
  have "nodes g2 = nodes g @ (ns @ ms)" using ns ms by simp
  moreover have "distinct (map fst (ns @ ms))"
    using ns(2) ms(2) disj by simp
  moreover have "list_all (\<lambda>(k, n). k = node_id n \<and> P k \<and> \<not> has_node g k) (ns @ ms)"
    unfolding list_all_iff has_node_def node_ids_def
  proof (intro ballI)
    fix x assume x: "x \<in> set (ns @ ms)"
    obtain k v where kv: "x = (k, v)" by (cases x)
    from x have "(k, v) \<in> set ns \<or> (k, v) \<in> set ms" by (simp add: kv)
    then show "case x of (k, n) \<Rightarrow> k = node_id n \<and> P k \<and> k \<notin> set (map fst (nodes g))"
    proof
      assume "(k, v) \<in> set ns"
      from ns(3)[OF this] show ?thesis by (auto simp: kv)
    next
      assume "(k, v) \<in> set ms"
      from ms(3)[OF this] show ?thesis unfolding k1 by (auto simp: kv)
    qed
  qed
  ultimately show ?thesis unfolding grows_def by blast
qed

lemma grows_build_graph: "grows entity_id Graph (build_graph w files)"
  by (rule grows_trans[OF grows_generic_pass grows_build_graph_from])

lemma graph_inv_Graph: "graph_inv Graph"
  by (simp add: graph_inv_def Graph_def node_ids_def)

lemma graph_inv_build_graph: "graph_inv (build_graph w files)"
  by (rule grows_graph_inv[OF grows_build_graph graph_inv_Graph])

lemma entity_ids_build_graph: "list_all entity_id (node_ids (build_graph w files))"
  by (rule grows_all_ids[OF grows_build_graph]) (simp add: Graph_def node_ids_def)

section \<open>Properties of the pipeline output\<close>

subsection \<open>Validated edges\<close>

lemma gd_nodes_analyze_repo:
  "gd_nodes (analyze_repo w p files) = gd_nodes (to_dict (resolve_edges (build_graph w files)))"
  by (simp add: analyze_repo_def)

lemma gd_edges_analyze_repo:
  "gd_edges (analyze_repo w p files) = edges (resolve_edges (build_graph w files))"
  by (simp add: analyze_repo_def gd_edges_to_dict)

lemma graph_inv_resolve_edges: "graph_inv g \<Longrightarrow> graph_inv (resolve_edges g)"
  by (simp add: graph_inv_def node_ids_def resolve_edges_def)

lemma valid_output_resolve_edges:
  assumes "graph_inv g"
  shows "valid_output (edges g) (to_dict (resolve_edges g))"
proof -
  have ids: "map nd_id (gd_nodes (to_dict (resolve_edges g))) = node_ids g"
    using nd_ids_to_dict[OF graph_inv_resolve_edges[OF assms]]
    by (simp add: node_ids_def nodes_resolve_edges)
  have es: "gd_edges (to_dict (resolve_edges g)) = resolve_loop (node_ids g) (edges g) [] []"
    by (simp add: gd_edges_to_dict edges_resolve_edges)
  show ?thesis
    unfolding valid_output_def ids es first_with_key_def list_all_iff
    using resolve_loop_valid[of _ "node_ids g" "edges g" "[]"]
          resolve_loop_first[of _ "node_ids g" "edges g" "[]"]
          resolve_loop_distinct[of "node_ids g" "edges g" "[]"]
    by blast
qed

text \<open>
  C1. For every repository input (every list of file descriptors and every content of the
  files), each edge of the serialized output of \<open>analyze_repo\<close> has its source and its target
  among the ids of the serialized nodes, no two edges of the output have the same
  (source, target, type) triple, and each edge of the output is the first edge with its
  triple in the edge list as it stood before the final \<open>resolve_edges\<close>. The same holds
  for \<open>to_dict\<close> after \<open>resolve_edges\<close> on any graph whose node dict is keyed by the node ids.
\<close>

theorem analyze_repo_edges_valid:
  "valid_output (edges (build_graph w files)) (analyze_repo w p files)
   \<and> (graph_inv g \<longrightarrow> valid_output (edges g) (to_dict (resolve_edges g)))"
proof -
  have "valid_output (edges (build_graph w files)) (to_dict (resolve_edges (build_graph w files)))"
    by (rule valid_output_resolve_edges[OF graph_inv_build_graph])
  then have "valid_output (edges (build_graph w files)) (analyze_repo w p files)"
    by (simp add: valid_output_def analyze_repo_def)
  then show ?thesis using valid_output_resolve_edges by blast
qed

theorem analyze_repo_edges_valid_witness:
  "valid_output (edges (build_graph demo_world [f_x, f_y]))
     (analyze_repo demo_world ''/r'' [f_x, f_y])
   \<and> map edge_key (gd_edges (analyze_repo demo_world ''/r'' [f_x, f_y])) =
       [(''file:a/x.js'', ''endpoint:a/x.js:GET:/u'', ''endpoint_handler''),
        (''file:a/x.js'', ''endpoint:a/x.js:USE:'', ''endpoint_handler''),
        (''file:a/x.js'', ''file:a/y.js'', ''imports'')]
   \<and> graph_inv dup_graph
   \<and> valid_output (edges dup_graph) (to_dict (resolve_edges dup_graph))
   \<and> map edge_metadata (gd_edges (to_dict (resolve_edges dup_graph))) =
       [[(''n'', MStr ''1'')], []]"
proof -
  have inv: "graph_inv dup_graph"
    by (simp add: graph_inv_def node_ids_def dup_graph_def file_a_def file_b_def Node_def)
  have keys: "map edge_key (gd_edges (analyze_repo demo_world ''/r'' [f_x, f_y])) =
       [(''file:a/x.js'', ''endpoint:a/x.js:GET:/u'', ''endpoint_handler''),
        (''file:a/x.js'', ''endpoint:a/x.js:USE:'', ''endpoint_handler''),
        (''file:a/x.js'', ''file:a/y.js'', ''imports'')]"
    by code_simp
  have md: "map edge_metadata (gd_edges (to_dict (resolve_edges dup_graph))) =
       [[(''n'', MStr ''1'')], []]"
    by code_simp
  from analyze_repo_edges_valid[of demo_world "[f_x, f_y]" "''/r''" dup_graph] inv keys md
  show ?thesis by blast
qed

subsection \<open>A file that does not parse\<close>

text \<open>
  C6. When the text of a rich-language file can be read but \<open>ast.parse\<close> rejects it,
  \<open>analyze_file\<close> of the AST extractor returns the graph it was given, with no node and no
  edge added, and the loop over the rich-language files goes on: its result is the one it
  would have without that file.
\<close>

theorem py_analyze_file_syntax_error:
  assumes "read_text w (full_path f) = Some src" and "ast_parse w src = None"
  shows "py_analyze_file w f g = g
         \<and> fold (py_analyze_file w) (fs1 @ f # fs2) g = fold (py_analyze_file w) (fs1 @ fs2) g"
proof -
  have skip: "py_analyze_file w f g' = g'" for g'
    using assms by (simp add: py_analyze_file_def)
  show ?thesis by (simp add: skip)
qed

theorem py_analyze_file_syntax_error_witness:
  "read_text demo_world (full_path f_bad) = Some ''def (''
   \<and> ast_parse demo_world ''def ('' = None
   \<and> py_analyze_file demo_world f_bad Graph = Graph
   \<and> fold (py_analyze_file demo_world) ([] @ f_bad # [f_models]) Graph
       = fold (py_analyze_file demo_world) ([] @ [f_models]) Graph
   \<and> map fst (nodes (fold (py_analyze_file demo_world) ([] @ [f_models]) Graph))
       = [''class:app/models.py:User'', ''class_ref:db.Model'',
          ''endpoint:app/models.py:User.show'', ''func:app/models.py:nightly'']"
proof -
  have r: "read_text demo_world (full_path f_bad) = Some ''def (''"
    by (simp add: demo_world_def f_bad_def)
  have p: "ast_parse demo_world ''def ('' = None"
    by (simp add: demo_world_def)
  have n: "map fst (nodes (fold (py_analyze_file demo_world) ([] @ [f_models]) Graph))
       = [''class:app/models.py:User'', ''class_ref:db.Model'',
          ''endpoint:app/models.py:User.show'', ''func:app/models.py:nightly'']"
    by code_simp
  from py_analyze_file_syntax_error[OF r p, of Graph "[]" "[f_models]"] r p n
  show ?thesis by blast
qed

subsection \<open>Placeholders of unresolved imports\<close>

lemma module_target_dropped:
  assumes ids: "list_all entity_id (node_ids g)" and e: "e \<in> set (edges (resolve_edges g))"
  shows "\<not> startswith (target e) ''module:''"
proof -
  from e have "target e \<in> set (node_ids g)"
    unfolding edges_resolve_edges by (rule resolve_loop_valid[THEN conjunct2, THEN conjunct1])
  with ids have "entity_id (target e)" by (simp add: list_all_iff)
  then show ?thesis by (rule entity_id_not_module)
qed

lemma target_import_edge: "target (import_edge s md) = ''module:'' @ md"
  by (simp add: import_edge_def Edge_def)

lemma js_resolve_edge_bare:
  assumes "\<not> startswith md ''.''"
  shows "js_resolve_edge fp (import_edge s md) = import_edge s md"
proof -
  have "drop (length ''module:'') (target (import_edge s md)) = md"
    unfolding target_import_edge by simp
  with assms show ?thesis
    unfolding js_resolve_edge_def Let_def by simp
qed

text \<open>
  C5. For every repository input, no edge of the serialized output of \<open>analyze_repo\<close> has a
  target that starts with \<open>module:\<close>. No node of the graph ever has such an id; the
  script-language resolver leaves the deferred edge of a bare (not relative) specifier
  pointing at its \<open>module:\<close> placeholder; and the final \<open>resolve_edges\<close> drops every edge
  whose target is such a placeholder, as a value of a total function and with no error.
\<close>

theorem no_module_target_in_output:
  "no_module_target (gd_edges (analyze_repo w p files))
   \<and> list_all (\<lambda>k. \<not> startswith k ''module:'') (node_ids (build_graph w files))
   \<and> (\<not> startswith md ''.'' \<longrightarrow> js_resolve_edge fp (import_edge s md) = import_edge s md)
   \<and> (startswith (target e) ''module:''
        \<longrightarrow> e \<notin> set (edges (resolve_edges (build_graph w files))))"
proof -
  have a: "no_module_target (gd_edges (analyze_repo w p files))"
    unfolding no_module_target_def gd_edges_analyze_repo list_all_iff
    using module_target_dropped[OF entity_ids_build_graph] by blast
  have b: "list_all (\<lambda>k. \<not> startswith k ''module:'') (node_ids (build_graph w files))"
    using entity_ids_build_graph[of w files] entity_id_not_module
    unfolding list_all_iff by blast
  have d: "startswith (target e) ''module:''
        \<longrightarrow> e \<notin> set (edges (resolve_edges (build_graph w files)))"
    using module_target_dropped[OF entity_ids_build_graph] by blast
  from a b d js_resolve_edge_bare show ?thesis by blast
qed

theorem no_module_target_in_output_witness:
  "no_module_target (gd_edges (analyze_repo demo_world ''/r'' [f_x, f_y]))
   \<and> list_all (\<lambda>k. \<not> startswith k ''module:'') (node_ids (build_graph demo_world [f_x, f_y]))
   \<and> \<not> startswith ''express'' ''.''
   \<and> js_resolve_edge (js_file_paths [f_x, f_y]) (import_edge ''file:a/x.js'' ''express'')
       = import_edge ''file:a/x.js'' ''express''
   \<and> startswith (target (import_edge ''file:a/x.js'' ''express'')) ''module:''
   \<and> import_edge ''file:a/x.js'' ''express'' \<in> set (edges (build_graph demo_world [f_x, f_y]))
   \<and> import_edge ''file:a/x.js'' ''express''
       \<notin> set (edges (resolve_edges (build_graph demo_world [f_x, f_y])))"
proof -
  have bare: "\<not> startswith ''express'' ''.''"
    by (simp add: startswith_def)
  have st: "startswith (target (import_edge ''file:a/x.js'' ''express'')) ''module:''"
    by (simp add: startswith_def import_edge_def Edge_def)
  have mem: "import_edge ''file:a/x.js'' ''express''
       \<in> set (edges (build_graph demo_world [f_x, f_y]))"
    by code_simp
  from no_module_target_in_output[of demo_world "''/r''" "[f_x, f_y]" "''express''"
         "js_file_paths [f_x, f_y]" "''file:a/x.js''" "import_edge ''file:a/x.js'' ''express''"]
       bare st mem
  show ?thesis by blast
qed

end
